theory Spec2Isabelle
  imports Complex_Main
begin

section \<open>Floating-point cells\<close>

text \<open>
  A cell of a pandas frame is a float: a finite number, plus or minus infinity, or NaN.
  Finite values are modelled by exact reals (rounding and overflow are not modelled, and
  there is no negative zero); the special values follow IEEE 754: NaN is absorbing, an
  infinity times zero and the difference of two equal infinities are NaN, and a nonzero
  finite number divided by zero is an infinity with the sign of the numerator, as numpy
  and pandas compute element-wise division.
\<close>

datatype fl = NaN | PInf | NInf | Fin real

fun isnan :: "fl \<Rightarrow> bool" where
  "isnan NaN = True"
| "isnan _ = False"

fun fl_neg :: "fl \<Rightarrow> fl" where
  "fl_neg NaN = NaN"
| "fl_neg PInf = NInf"
| "fl_neg NInf = PInf"
| "fl_neg (Fin a) = Fin (- a)"

fun fl_abs :: "fl \<Rightarrow> fl" where
  "fl_abs NaN = NaN"
| "fl_abs PInf = PInf"
| "fl_abs NInf = PInf"
| "fl_abs (Fin a) = Fin \<bar>a\<bar>"

fun fl_add :: "fl \<Rightarrow> fl \<Rightarrow> fl" where
  "fl_add NaN y = NaN"
| "fl_add x NaN = NaN"
| "fl_add (Fin a) (Fin b) = Fin (a + b)"
| "fl_add PInf NInf = NaN"
| "fl_add NInf PInf = NaN"
| "fl_add PInf y = PInf"
| "fl_add NInf y = NInf"
| "fl_add x PInf = PInf"
| "fl_add x NInf = NInf"

definition fl_sub :: "fl \<Rightarrow> fl \<Rightarrow> fl" where
  "fl_sub x y = fl_add x (fl_neg y)"

fun fl_mul :: "fl \<Rightarrow> fl \<Rightarrow> fl" where
  "fl_mul NaN y = NaN"
| "fl_mul x NaN = NaN"
| "fl_mul (Fin a) (Fin b) = Fin (a * b)"
| "fl_mul (Fin a) y = (if a = 0 then NaN else if 0 < a then y else fl_neg y)"
| "fl_mul x (Fin b) = (if b = 0 then NaN else if 0 < b then x else fl_neg x)"
| "fl_mul PInf y = y"
| "fl_mul NInf y = fl_neg y"

fun fl_div :: "fl \<Rightarrow> fl \<Rightarrow> fl" where
  "fl_div NaN y = NaN"
| "fl_div x NaN = NaN"
| "fl_div (Fin a) (Fin b) =
     (if b = 0 then (if a = 0 then NaN else if 0 < a then PInf else NInf) else Fin (a / b))"
| "fl_div (Fin a) y = Fin 0"
| "fl_div x (Fin b) = (if 0 \<le> b then x else fl_neg x)"
| "fl_div x y = NaN"

text \<open>The comparison \<^verbatim>\<open>x > y\<close>: false as soon as one side is NaN.\<close>

fun fl_gt :: "fl \<Rightarrow> fl \<Rightarrow> bool" where
  "fl_gt NaN y = False"
| "fl_gt x NaN = False"
| "fl_gt (Fin a) (Fin b) = (b < a)"
| "fl_gt PInf y = (y \<noteq> PInf)"
| "fl_gt x NInf = (x \<noteq> NInf)"
| "fl_gt x y = False"

section \<open>Frames and the pandas operations the engine uses\<close>

text \<open>
  A \<^verbatim>\<open>pandas.DataFrame\<close> with a date index: the observation dates (day numbers,
  unique), the column labels, and the cells stored one list per column, each as long as
  the index. The shape of \<^verbatim>\<open>df.values\<close> is (number of dates, number of columns).
\<close>

record frame =
  index :: "nat list"
  columns :: "string list"
  cells :: "fl list list"

definition wf_frame :: "frame \<Rightarrow> bool" where
  "wf_frame f \<longleftrightarrow>
     distinct (index f) \<and> length (cells f) = length (columns f) \<and>
     list_all (\<lambda>c. length c = length (index f)) (cells f)"

definition shape :: "frame \<Rightarrow> nat \<times> nat" where
  "shape f = (length (index f), length (columns f))"

text \<open>The cell of column \<open>i\<close> at row \<open>t\<close>.\<close>

definition cell :: "frame \<Rightarrow> nat \<Rightarrow> nat \<Rightarrow> fl" where
  "cell f i t = cells f ! i ! t"

datatype error = AttributeError string | ValueError | TypeError | UnboundLocalError string

text \<open>
  A computation that may raise: \<open>Inl\<close> carries the exception. \<open>and_then\<close> runs the
  next statement unless the previous one raised.
\<close>

definition and_then :: "error + 'a \<Rightarrow> ('a \<Rightarrow> error + 'b) \<Rightarrow> error + 'b" where
  "and_then m k = (case m of Inl e \<Rightarrow> Inl e | Inr x \<Rightarrow> k x)"

text \<open>
  \<^verbatim>\<open>left.align(right, join='left', axis=0)\<close>: the right frame is re-indexed on the
  dates of the left one; a date the right frame does not have gives a row of NaN. The
  columns of neither frame are touched.
\<close>

definition reindex_col :: "nat list \<Rightarrow> fl list \<Rightarrow> nat list \<Rightarrow> fl list" where
  "reindex_col old c new =
     map (\<lambda>d. case map_of (zip old c) d of None \<Rightarrow> NaN | Some v \<Rightarrow> v) new"

definition align_left :: "frame \<Rightarrow> frame \<Rightarrow> frame \<times> frame" where
  "align_left l r =
     (l, r\<lparr>index := index l, cells := map (\<lambda>c. reindex_col (index r) c (index l)) (cells r)\<rparr>)"

text \<open>
  \<^verbatim>\<open>df.mask(numpy.isnan(other.values))\<close>: the condition is a bare array, so pandas
  demands the shape of \<^verbatim>\<open>df\<close> (\<^verbatim>\<open>ValueError: Array conditional must be same shape as
  self\<close>) and then blanks the cells where the condition holds, position by position.
\<close>

definition mask_isnan :: "frame \<Rightarrow> frame \<Rightarrow> error + frame" where
  "mask_isnan df other =
     (if shape other \<noteq> shape df then Inl ValueError
      else Inr (df\<lparr>cells := map2 (map2 (\<lambda>v p. if isnan p then NaN else v)) (cells df) (cells other)\<rparr>))"

text \<open>\<^verbatim>\<open>df.fillna(method='ffill')\<close>, down each column.\<close>

fun ffill_from :: "fl \<Rightarrow> fl list \<Rightarrow> fl list" where
  "ffill_from prev [] = []"
| "ffill_from prev (x # xs) = (if isnan x then prev # ffill_from prev xs else x # ffill_from x xs)"

definition ffill :: "frame \<Rightarrow> frame" where
  "ffill f = f\<lparr>cells := map (ffill_from NaN) (cells f)\<rparr>"

text \<open>\<^verbatim>\<open>df.shift(k)\<close> for \<open>k \<ge> 0\<close>: every column moves down by \<open>k\<close> rows.\<close>

definition shift_col :: "nat \<Rightarrow> fl list \<Rightarrow> fl list" where
  "shift_col k c = take (length c) (replicate k NaN @ c)"

definition shift :: "nat \<Rightarrow> frame \<Rightarrow> frame" where
  "shift k f = f\<lparr>cells := map (shift_col k) (cells f)\<rparr>"

text \<open>
  \<^verbatim>\<open>df.rolling(window=n).std()\<close>: the sample standard deviation (\<^verbatim>\<open>ddof=1\<close>) of the
  last \<open>n\<close> rows. Infinite cells count as missing, and a window with fewer than \<open>n\<close> valid
  observations (or with \<open>n < 2\<close>) gives NaN.
\<close>

fun fin_vals :: "fl list \<Rightarrow> real list" where
  "fin_vals [] = []"
| "fin_vals (Fin x # w) = x # fin_vals w"
| "fin_vals (_ # w) = fin_vals w"

definition sample_var :: "real list \<Rightarrow> real" where
  "sample_var xs =
     (let m = sum_list xs / real (length xs)
      in sum_list (map (\<lambda>x. (x - m)\<^sup>2) xs) / (real (length xs) - 1))"

definition window_std :: "nat \<Rightarrow> fl list \<Rightarrow> fl" where
  "window_std n w =
     (let xs = fin_vals w
      in if length xs < n \<or> n < 2 then NaN else Fin (sqrt (sample_var xs)))"

definition rolling_std_col :: "nat \<Rightarrow> fl list \<Rightarrow> fl list" where
  "rolling_std_col n c =
     map (\<lambda>t. if t + 1 < n then NaN else window_std n (take n (drop (t + 1 - n) c)))
       [0..<length c]"

text \<open>
  \<^verbatim>\<open>df.resample(freq)\<close> followed by an aggregation. The calendar behind a pandas
  offset alias (\<^verbatim>\<open>'BM'\<close>, \<^verbatim>\<open>'W'\<close>, ...) is a parameter: \<open>offsets freq\<close> gives, for an
  alias pandas knows, the function from a date to the label of its bin (for \<^verbatim>\<open>'BM'\<close>
  the last business day of the period the date falls in). The resampled frame has one
  row per bin label; pandas also emits an all-NaN row for every empty bin in between,
  which the re-indexing that follows cannot tell from a missing row. Aggregations skip
  NaN; a bin without a valid value gives NaN.
\<close>

type_synonym calendar = "string \<Rightarrow> (nat \<Rightarrow> nat) option"

definition valid :: "fl list \<Rightarrow> fl list" where
  "valid w = filter (\<lambda>v. \<not> isnan v) w"

definition agg_mean :: "fl list \<Rightarrow> fl" where
  "agg_mean w =
     (if valid w = [] then NaN
      else fl_div (foldr fl_add (valid w) (Fin 0)) (Fin (real (length (valid w)))))"

definition agg_first :: "fl list \<Rightarrow> fl" where
  "agg_first w = (case valid w of [] \<Rightarrow> NaN | v # _ \<Rightarrow> v)"

definition agg_last :: "fl list \<Rightarrow> fl" where
  "agg_last w = (case rev (valid w) of [] \<Rightarrow> NaN | v # _ \<Rightarrow> v)"

definition bin_of :: "(nat \<Rightarrow> nat) \<Rightarrow> nat list \<Rightarrow> fl list \<Rightarrow> nat \<Rightarrow> fl list" where
  "bin_of b ix c l = map snd (filter (\<lambda>(d, v). b d = l) (zip ix c))"

definition resample :: "(nat \<Rightarrow> nat) \<Rightarrow> (fl list \<Rightarrow> fl) \<Rightarrow> frame \<Rightarrow> frame" where
  "resample b agg f =
     (let labels = sort (remdups (map b (index f)))
      in f\<lparr>index := labels,
            cells := map (\<lambda>c. map (\<lambda>l. agg (bin_of b (index f) c l)) labels) (cells f)\<rparr>)"

section \<open>Configuration values\<close>

text \<open>
  The backtest request is a plain Python object probed with \<^verbatim>\<open>hasattr\<close>: a finite map
  from attribute names to values. Floats of the configuration are finite.
\<close>

datatype pyval = VNone | VBool bool | VInt int | VNum real | VStr string

type_synonym request = "string \<rightharpoonup> pyval"

definition getattr :: "request \<Rightarrow> string \<Rightarrow> error + pyval" where
  "getattr br a = (case br a of None \<Rightarrow> Inl (AttributeError a) | Some v \<Rightarrow> Inr v)"

definition hasattr :: "request \<Rightarrow> string \<Rightarrow> bool" where
  "hasattr br a \<longleftrightarrow> br a \<noteq> None"

text \<open>A value used in float arithmetic (a Python \<^verbatim>\<open>bool\<close> is an \<^verbatim>\<open>int\<close>).\<close>

fun as_num :: "pyval \<Rightarrow> error + real" where
  "as_num (VNum x) = Inr x"
| "as_num (VInt i) = Inr (real_of_int i)"
| "as_num (VBool b) = Inr (if b then 1 else 0)"
| "as_num _ = Inl TypeError"

text \<open>A rolling window length: pandas wants a non-negative integer.\<close>

fun as_window :: "pyval \<Rightarrow> error + nat" where
  "as_window (VInt i) = (if i < 0 then Inl ValueError else Inr (nat i))"
| "as_window _ = Inl ValueError"

section \<open>The helpers of the time-series library\<close>

definition map_cells :: "(fl \<Rightarrow> fl) \<Rightarrow> frame \<Rightarrow> frame" where
  "map_cells g f = f\<lparr>cells := map (map g) (cells f)\<rparr>"

text \<open>
  Modelled from the spec: \<^verbatim>\<open>Calculations.calculate_returns\<close> belongs to the
  time-series library, which is not among the sources. The spec (4.2, step 2): simple
  period-over-period percentage change; the first observation's return is NaN.
\<close>

definition calculate_returns :: "frame \<Rightarrow> frame" where
  "calculate_returns f =
     f\<lparr>cells := map (\<lambda>c. map2 (\<lambda>p q. fl_sub (fl_div p q) (Fin 1)) c (shift_col 1 c)) (cells f)\<rparr>"

text \<open>
  Modelled from the spec: \<^verbatim>\<open>Calculations.rolling_volatility\<close> is not among the
  sources. The spec (4.1, step 2): a rolling standard deviation over a trailing window
  of \<open>periods\<close> observations, annualised by the square root of the observations per
  year (\<^verbatim>\<open>math.sqrt\<close> raises on a negative number).
\<close>

definition rolling_volatility :: "frame \<Rightarrow> nat \<Rightarrow> pyval \<Rightarrow> error + frame" where
  "rolling_volatility f periods obs_in_year =
     (case as_num obs_in_year of
        Inl e \<Rightarrow> Inl e
      | Inr y \<Rightarrow>
          if y < 0 then Inl ValueError
          else Inr (f\<lparr>cells := map (\<lambda>c. map (\<lambda>v. fl_mul v (Fin (sqrt y))) (rolling_std_col periods c))
                                  (cells f)\<rparr>))"

text \<open>
  Modelled from the spec: \<^verbatim>\<open>Filter.resample_time_series_frequency\<close> is not among the
  sources. The spec (4.1, step 5, and section 7): the series is resampled onto the
  rebalance calendar, by the mean unless another type is given; \<^verbatim>\<open>'first'\<close> and
  \<^verbatim>\<open>'last'\<close> are the pandas aggregations of that name, and any other type gives no
  frame at all (Python's \<^verbatim>\<open>None\<close>).
\<close>

definition resample_time_series_frequency ::
  "calendar \<Rightarrow> frame \<Rightarrow> pyval \<Rightarrow> pyval \<Rightarrow> error + frame option" where
  "resample_time_series_frequency offsets f freq rtype =
     (let agg = (if rtype = VStr ''mean'' then Some agg_mean
                 else if rtype = VStr ''first'' then Some agg_first
                 else if rtype = VStr ''last'' then Some agg_last
                 else None)
      in case agg of
           None \<Rightarrow> Inr None
         | Some g \<Rightarrow>
             (case freq of
                VStr s \<Rightarrow> (case offsets s of
                             None \<Rightarrow> Inl ValueError
                           | Some b \<Rightarrow> Inr (Some (resample b g f)))
              | _ \<Rightarrow> Inl ValueError))"

section \<open>RiskEngine.calculate_leverage_factor\<close>

text \<open>
  \<^verbatim>\<open>lev_df.ix[0:vol_periods] = numpy.nan\<close>: on a date index an integer slice is
  positional, rows \<open>0\<close> to \<open>vol_periods - 1\<close>.
\<close>

definition nan_head :: "nat \<Rightarrow> fl list \<Rightarrow> fl list" where
  "nan_head n c = replicate (min n (length c)) NaN @ drop n c"

text \<open>
  The result is \<open>Inl\<close> for a raised exception, \<open>Inr None\<close> for the bare \<^verbatim>\<open>return\<close>
  and \<open>Inr (Some lev)\<close> for a leverage frame. Aligning with the \<^verbatim>\<open>None\<close> that the
  resampling helper returns for an unknown type is a \<^verbatim>\<open>TypeError\<close>.
\<close>

definition clamp_max :: "real \<Rightarrow> fl \<Rightarrow> fl" where
  "clamp_max ml v = (if fl_gt v (Fin ml) then Fin ml else v)"

definition calculate_leverage_factor ::
  "calendar \<Rightarrow> frame \<Rightarrow> pyval \<Rightarrow> pyval \<Rightarrow> pyval \<Rightarrow> pyval \<Rightarrow> pyval \<Rightarrow> pyval \<Rightarrow> pyval \<Rightarrow>
   bool \<Rightarrow> nat \<Rightarrow> error + frame option" where
  "calculate_leverage_factor offsets returns_df vol_target vol_max_leverage vol_periods
     vol_obs_in_year vol_rebalance_freq data_resample_freq data_resample_type returns period_shift =
     (if data_resample_freq \<noteq> VNone then Inr None
      else
        let returns_df = (if \<not> returns then calculate_returns returns_df else returns_df)
        in and_then (as_window vol_periods) (\<lambda>n.
           and_then (rolling_volatility returns_df n vol_obs_in_year) (\<lambda>vol.
           let roll_vol_df = shift period_shift vol
           in and_then (as_num vol_target) (\<lambda>vt.
              let lev_df = map_cells (fl_div (Fin vt)) roll_vol_df
              in and_then (as_num vol_max_leverage) (\<lambda>ml.
                 let lev_df = map_cells (clamp_max ml) lev_df
                 in and_then (resample_time_series_frequency offsets lev_df vol_rebalance_freq
                                data_resample_type) (\<lambda>res.
                    (case res of
                       None \<Rightarrow> Inl TypeError
                     | Some lev_r \<Rightarrow>
                         let lev_df = ffill (snd (align_left returns_df lev_r))
                         in Inr (Some (lev_df\<lparr>cells := map (nan_head n) (cells lev_df)\<rparr>)))))))))"

section \<open>Backtest.calculate_trading_PnL\<close>

text \<open>
  Modelled from the spec: \<^verbatim>\<open>Calculations.calculate_signal_returns_with_tc_matrix\<close> is
  not among the sources. The spec (4.2, step 4): for each column, the return at \<open>t\<close> is
  the previous period's position times the return at \<open>t\<close>, minus the cost
  \<open>tc * |position t - position (t - 1)|\<close>; the first observation has no previous
  position. The two value arrays are combined position by position and must have one
  shape; the result is indexed like the returns, and both callers relabel its columns.
  A signal that is \<^verbatim>\<open>None\<close> has no \<^verbatim>\<open>shift\<close>.
\<close>

definition tc_cell :: "real \<Rightarrow> fl \<Rightarrow> fl \<Rightarrow> fl \<Rightarrow> fl" where
  "tc_cell k prev cur r = fl_sub (fl_mul prev r) (fl_mul (Fin k) (fl_abs (fl_sub cur prev)))"

definition calculate_signal_returns_with_tc_matrix ::
  "frame option \<Rightarrow> frame \<Rightarrow> pyval \<Rightarrow> error + frame" where
  "calculate_signal_returns_with_tc_matrix signal_data_frame returns_data_frame tc =
     (case signal_data_frame of
        None \<Rightarrow> Inl (AttributeError ''shift'')
      | Some sig \<Rightarrow>
          if shape sig \<noteq> shape returns_data_frame then Inl ValueError
          else and_then (as_num tc) (\<lambda>k.
            Inr (returns_data_frame
                  \<lparr>cells := map2 (\<lambda>c r. map2 (\<lambda>(prev, cur) x. tc_cell k prev cur x)
                                            (zip (shift_col 1 c) c) r)
                                   (cells sig) (cells returns_data_frame)\<rparr>)))"

text \<open>
  The object under construction. \<^verbatim>\<open>__init__\<close> sets \<^verbatim>\<open>_pnl\<close> and \<^verbatim>\<open>_portfolio\<close> to
  \<^verbatim>\<open>None\<close>; the other attributes do not exist until they are assigned, which is
  \<open>None\<close> here as well. The return statistics and the cumulative indices, which the
  statistics collaborator and \<^verbatim>\<open>create_mult_index\<close> derive from the fields below, are
  not modelled.
\<close>

record backtest =
  self_pnl :: "frame option"
  self_portfolio :: "frame option"
  self_individual_leverage :: "frame option"
  self_signal :: "frame option"
  self_portfolio_leverage :: "frame option"
  self_portfolio_signal :: "frame option"

definition init :: backtest where
  "init = \<lparr>self_pnl = None, self_portfolio = None, self_individual_leverage = None,
           self_signal = None, self_portfolio_leverage = None, self_portfolio_signal = None\<rparr>"

text \<open>Lines 54 to 59: the frames after alignment, masking and forward-filling.\<close>

definition align_frames :: "frame \<Rightarrow> frame \<Rightarrow> error + frame \<times> frame" where
  "align_frames asset_a_df signal_df =
     (let (asset_df, signal_df) = align_left asset_a_df signal_df
      in and_then (mask_isnan signal_df asset_df) (\<lambda>signal_df.
           Inr (ffill asset_df, ffill signal_df)))"

text \<open>
  The seven attributes of a volatility target, read left to right as the call
  evaluates its arguments, and the call itself; \<open>prefix\<close> is \<^verbatim>\<open>signal\<close> or
  \<^verbatim>\<open>portfolio\<close>.
\<close>

definition leverage_for :: "calendar \<Rightarrow> request \<Rightarrow> string \<Rightarrow> frame \<Rightarrow> error + frame option" where
  "leverage_for offsets br prefix returns_df =
     and_then (getattr br (prefix @ ''_vol_target'')) (\<lambda>vol_target.
     and_then (getattr br (prefix @ ''_vol_max_leverage'')) (\<lambda>vol_max_leverage.
     and_then (getattr br (prefix @ ''_vol_periods'')) (\<lambda>vol_periods.
     and_then (getattr br (prefix @ ''_vol_obs_in_year'')) (\<lambda>vol_obs_in_year.
     and_then (getattr br (prefix @ ''_vol_rebalance_freq'')) (\<lambda>vol_rebalance_freq.
     and_then (getattr br (prefix @ ''_vol_resample_freq'')) (\<lambda>vol_resample_freq.
     and_then (getattr br (prefix @ ''_vol_resample_type'')) (\<lambda>vol_resample_type.
       calculate_leverage_factor offsets returns_df vol_target vol_max_leverage vol_periods
         vol_obs_in_year vol_rebalance_freq vol_resample_freq vol_resample_type True 0)))))))"

text \<open>The defaults written into the request when the attributes are missing.\<close>

definition set_default :: "request \<Rightarrow> string \<Rightarrow> pyval \<Rightarrow> request" where
  "set_default br a v = (if \<not> hasattr br a then br(a \<mapsto> v) else br)"

definition resample_defaults :: "request \<Rightarrow> string \<Rightarrow> request" where
  "resample_defaults br prefix =
     set_default (set_default br (prefix @ ''_vol_resample_type'') (VStr ''mean''))
       (prefix @ ''_vol_resample_freq'') VNone"

definition is_True :: "request \<Rightarrow> string \<Rightarrow> bool" where
  "is_True br a \<longleftrightarrow> br a = Some (VBool True)"

text \<open>
  \<^verbatim>\<open>a.values * b.values\<close> rebuilt as a frame on the index and columns of \<open>a\<close>. The two
  arrays have one shape wherever the engine multiplies them; numpy's broadcasting of
  other shapes is not modelled and is a \<^verbatim>\<open>ValueError\<close> here.
\<close>

definition mul_values :: "frame \<Rightarrow> frame \<Rightarrow> error + frame" where
  "mul_values a b =
     (if shape a \<noteq> shape b then Inl ValueError
      else Inr (a\<lparr>cells := map2 (map2 fl_mul) (cells a) (cells b)\<rparr>))"

text \<open>
  Lines 73 to 91: the per-asset volatility target. The result is the request, which may
  have gained the two defaults, and either the exception or the signal to trade with
  the leverage frame to store. A leverage of \<^verbatim>\<open>None\<close> has no \<^verbatim>\<open>values\<close>.
\<close>

definition signal_vol_stage ::
  "calendar \<Rightarrow> request \<Rightarrow> frame \<Rightarrow> frame \<Rightarrow> request \<times> (error + frame \<times> frame option)" where
  "signal_vol_stage offsets br returns_df signal_df =
     (if hasattr br ''signal_vol_adjust'' \<and> is_True br ''signal_vol_adjust'' then
        let br = resample_defaults br ''signal''
        in (br,
            and_then (leverage_for offsets br ''signal'' returns_df) (\<lambda>res.
              case res of
                None \<Rightarrow> Inl (AttributeError ''values'')
              | Some leverage_df \<Rightarrow>
                  and_then (mul_values signal_df leverage_df) (\<lambda>signal_df.
                    Inr (signal_df, Some leverage_df))))
      else (br, Inr (signal_df, None)))"

text \<open>
  \<^verbatim>\<open>df.sum(axis=1)\<close> and \<^verbatim>\<open>df.mean(axis=1)\<close>: one value per date, over the cells of
  that row that are not NaN. A row without a valid cell has mean NaN and, in the pandas
  this code was written for (before 0.22), sum NaN.
\<close>

definition row :: "frame \<Rightarrow> nat \<Rightarrow> fl list" where
  "row f t = map (\<lambda>c. c ! t) (cells f)"

definition agg_sum :: "fl list \<Rightarrow> fl" where
  "agg_sum w = (if valid w = [] then NaN else foldr fl_add (valid w) (Fin 0))"

definition across :: "(fl list \<Rightarrow> fl) \<Rightarrow> frame \<Rightarrow> frame" where
  "across agg f =
     \<lparr>index = index f, columns = [''Portfolio''],
      cells = [map (\<lambda>t. agg (row f t)) [0..<length (index f)]]\<rparr>"

text \<open>
  Lines 97 to 103: the local variable \<^verbatim>\<open>portfolio\<close>; \<open>None\<close> when neither branch
  assigns it.
\<close>

definition combine :: "request \<Rightarrow> frame \<Rightarrow> frame option" where
  "combine br pnl =
     (if hasattr br ''portfolio_combination'' then
        (if br ''portfolio_combination'' = Some (VStr ''sum'') then Some (across agg_sum pnl)
         else if br ''portfolio_combination'' = Some (VStr ''mean'') then Some (across agg_mean pnl)
         else None)
      else Some (across agg_mean pnl))"

definition ones :: "frame \<Rightarrow> frame" where
  "ones pnl = \<lparr>index = index pnl, columns = [''Portfolio''],
               cells = [replicate (length (index pnl)) (Fin 1)]\<rparr>"

section \<open>RiskEngine.calculate_vol_adjusted_returns\<close>

definition calculate_vol_adjusted_returns ::
  "calendar \<Rightarrow> frame \<Rightarrow> request \<Rightarrow> bool \<Rightarrow> request \<times> (error + frame \<times> frame)" where
  "calculate_vol_adjusted_returns offsets returns_df br returns =
     (let returns_df = (if \<not> returns then calculate_returns returns_df else returns_df);
          br = resample_defaults br ''portfolio''
      in (br,
          and_then (leverage_for offsets br ''portfolio'' returns_df) (\<lambda>leverage_df.
          and_then (getattr br ''spot_tc_bp'') (\<lambda>tc.
          and_then (calculate_signal_returns_with_tc_matrix leverage_df returns_df tc) (\<lambda>vol_returns_df.
            case leverage_df of
              None \<Rightarrow> Inl (AttributeError ''shift'')
            | Some lev \<Rightarrow> Inr (vol_returns_df\<lparr>columns := columns returns_df\<rparr>, lev))))))"

text \<open>
  Lines 109 to 113: the portfolio-level volatility target. Reading the unassigned
  local \<^verbatim>\<open>portfolio\<close> is an \<^verbatim>\<open>UnboundLocalError\<close>.
\<close>

definition portfolio_vol_stage ::
  "calendar \<Rightarrow> request \<Rightarrow> frame option \<Rightarrow> frame \<Rightarrow>
   request \<times> (error + frame option \<times> frame)" where
  "portfolio_vol_stage offsets br portfolio portfolio_leverage_df =
     (if hasattr br ''portfolio_vol_adjust'' \<and> is_True br ''portfolio_vol_adjust'' then
        (case portfolio of
           None \<Rightarrow> (br, Inl (UnboundLocalError ''portfolio''))
         | Some p \<Rightarrow>
             (case calculate_vol_adjusted_returns offsets p br True of
                (br, Inl e) \<Rightarrow> (br, Inl e)
              | (br, Inr (p, lev)) \<Rightarrow> (br, Inr (Some p, lev))))
      else (br, Inr (portfolio, portfolio_leverage_df)))"

text \<open>
  Lines 120 to 134: the final position signals. \<^verbatim>\<open>values.flatten()\<close> lists the cells
  of the leverage frame row by row; repeated for every column and transposed it has one
  row per leverage value, which must be the shape of the signal's values.
\<close>

definition flatten :: "frame \<Rightarrow> fl list" where
  "flatten f = concat (map (row f) [0..<length (index f)])"

definition divides_by_count :: "request \<Rightarrow> bool" where
  "divides_by_count br \<longleftrightarrow>
     (if hasattr br ''portfolio_combination'' then
        br ''portfolio_combination'' \<noteq> Some (VStr ''sum'') \<and>
        br ''portfolio_combination'' = Some (VStr ''mean'')
      else True)"

definition portfolio_signal :: "request \<Rightarrow> frame \<Rightarrow> frame \<Rightarrow> error + frame" where
  "portfolio_signal br portfolio_leverage_df signal_df =
     (let length_cols = length (columns signal_df);
          lev = flatten portfolio_leverage_df
      in if length lev \<noteq> length (index signal_df) then Inl ValueError
         else
           let ps = signal_df\<lparr>cells := map (\<lambda>c. map2 fl_mul lev c) (cells signal_df)\<rparr>
           in Inr (if divides_by_count br
                   then map_cells (\<lambda>v. fl_div v (Fin (real length_cols))) ps
                   else ps))"

text \<open>
  The whole operation. It returns the object and the request as the call leaves them,
  and the exception if one was raised. The loop of lines 69 and 70 pairs the column
  labels by position; the mask above has made sure that there are as many signal
  columns as asset columns.
\<close>

definition calculate_trading_PnL ::
  "calendar \<Rightarrow> backtest \<Rightarrow> request \<Rightarrow> frame \<Rightarrow> frame \<Rightarrow> backtest \<times> request \<times> error option" where
  "calculate_trading_PnL offsets self br asset_a_df signal_df =
     (case align_frames asset_a_df signal_df of
        Inl e \<Rightarrow> (self, br, Some e)
      | Inr (asset_df, signal_df) \<Rightarrow>
     let returns_df = calculate_returns asset_df
     in (case getattr br ''spot_tc_bp'' of
        Inl e \<Rightarrow> (self, br, Some e)
      | Inr tc \<Rightarrow>
     let pnl_cols = map2 (\<lambda>r s. r @ '' / '' @ s) (columns returns_df) (columns signal_df)
     in (case signal_vol_stage offsets br returns_df signal_df of
        (br, Inl e) \<Rightarrow> (self, br, Some e)
      | (br, Inr (signal_df, leverage)) \<Rightarrow>
     let self = (case leverage of
                   None \<Rightarrow> self
                 | Some leverage_df \<Rightarrow> self\<lparr>self_individual_leverage := Some leverage_df\<rparr>)
     in (case calculate_signal_returns_with_tc_matrix (Some signal_df) returns_df tc of
        Inl e \<Rightarrow> (self, br, Some e)
      | Inr pnl \<Rightarrow>
     let pnl = pnl\<lparr>columns := pnl_cols\<rparr>;
         portfolio = combine br pnl;
         portfolio_leverage_df = ones pnl
     in (case portfolio_vol_stage offsets br portfolio portfolio_leverage_df of
        (br, Inl e) \<Rightarrow> (self, br, Some e)
      | (br, Inr (portfolio, portfolio_leverage_df)) \<Rightarrow>
     (case portfolio of
        None \<Rightarrow> (self, br, Some (UnboundLocalError ''portfolio''))
      | Some portfolio \<Rightarrow>
     let self = self\<lparr>self_portfolio := Some portfolio, self_signal := Some signal_df,
                     self_portfolio_leverage := Some portfolio_leverage_df\<rparr>
     in (case portfolio_signal br portfolio_leverage_df signal_df of
        Inl e \<Rightarrow> (self, br, Some e)
      | Inr ps \<Rightarrow>
     let self = self\<lparr>self_portfolio_signal := Some ps, self_pnl := Some pnl\<rparr>
     in (case getattr br ''ann_factor'' of
        Inl e \<Rightarrow> (self, br, Some e)
      | Inr ann_factor \<Rightarrow>
          (self\<lparr>self_portfolio := Some (portfolio\<lparr>columns := [''Port'']\<rparr>)\<rparr>, br, None)))))))))"

section \<open>Value ranges\<close>



section \<open>One column of the leverage frame\<close>

text \<open>
  The steps of \<open>calculate_leverage_factor\<close> read column by column: the capped ratio of
  the target to the shifted rolling volatility, and its resampling on the rebalance
  calendar, re-indexed on the dates of the returns and forward-filled.
\<close>

definition raw_leverage_col :: "nat \<Rightarrow> real \<Rightarrow> nat \<Rightarrow> real \<Rightarrow> real \<Rightarrow> fl list \<Rightarrow> fl list" where
  "raw_leverage_col n y ps x m c =
     map (\<lambda>u. clamp_max m (fl_div (Fin x) u))
       (shift_col ps (map (\<lambda>v. fl_mul v (Fin (sqrt y))) (rolling_std_col n c)))"

definition rebalanced_col :: "(nat \<Rightarrow> nat) \<Rightarrow> (fl list \<Rightarrow> fl) \<Rightarrow> nat list \<Rightarrow> fl list \<Rightarrow> fl list" where
  "rebalanced_col b agg ix raw =
     ffill_from NaN
       (reindex_col (sort (remdups (map b ix)))
          (map (\<lambda>l. agg (bin_of b ix raw l)) (sort (remdups (map b ix)))) ix)"

section \<open>Example inputs\<close>

text \<open>
  Day 0 is a Monday. The example calendar knows one alias, the weeks that end on a
  Friday: a date is binned under the first Friday on or after it.
\<close>

definition example_calendar :: calendar where
  "example_calendar s = (if s = ''W-FRI'' then Some (\<lambda>d. d + (11 - d mod 7) mod 7) else None)"

text \<open>A Thursday, a Friday and the Monday after, with a constant return.\<close>

definition flat_returns :: frame where
  "flat_returns = \<lparr>index = [3, 4, 7], columns = [''A''], cells = [[Fin 0, Fin 0, Fin 0]]\<rparr>"


text \<open>
  Two assets over a Monday, a Tuesday and a Wednesday; the second does not trade on the
  Wednesday. The signal frame labels its columns differently, has no value for the
  first asset on the Monday, and changes on the Wednesday.
\<close>

definition two_prices :: frame where
  "two_prices = \<lparr>index = [7, 8, 9], columns = [''A'', ''B''],
                  cells = [[Fin 100, Fin 110, Fin 99], [Fin 50, Fin 55, NaN]]\<rparr>"

definition two_signals :: frame where
  "two_signals = \<lparr>index = [7, 8, 9], columns = [''X'', ''Y''],
                   cells = [[NaN, Fin 1, Fin 2], [Fin 1, Fin 1, Fin (- 1)]]\<rparr>"

definition plain_request :: request where
  "plain_request = [''spot_tc_bp'' \<mapsto> VNum (1 / 100), ''ann_factor'' \<mapsto> VInt 252]"

definition two_filled_prices :: frame where
  "two_filled_prices = \<lparr>index = [7, 8, 9], columns = [''A'', ''B''],
                         cells = [[Fin 100, Fin 110, Fin 99], [Fin 50, Fin 55, Fin 55]]\<rparr>"

definition two_positions :: frame where
  "two_positions = \<lparr>index = [7, 8, 9], columns = [''X'', ''Y''],
                     cells = [[NaN, Fin 1, Fin 2], [Fin 1, Fin 1, Fin 1]]\<rparr>"

definition two_returns :: frame where
  "two_returns = \<lparr>index = [7, 8, 9], columns = [''A'', ''B''],
                   cells = [[NaN, Fin (1 / 10), Fin (- 1 / 10)], [NaN, Fin (1 / 10), Fin 0]]\<rparr>"

definition two_pnl :: frame where
  "two_pnl = \<lparr>index = [7, 8, 9], columns = [''A / X'', ''B / Y''],
               cells = [[NaN, NaN, Fin (- 11 / 100)], [NaN, Fin (1 / 10), Fin 0]]\<rparr>"

definition two_portfolio :: frame where
  "two_portfolio = \<lparr>index = [7, 8, 9], columns = [''Portfolio''],
                     cells = [[NaN, Fin (1 / 10), Fin (- 11 / 200)]]\<rparr>"

definition two_final_signal :: frame where
  "two_final_signal = \<lparr>index = [7, 8, 9], columns = [''X'', ''Y''],
                        cells = [[NaN, Fin (1 / 2), Fin 1], [Fin (1 / 2), Fin (1 / 2), Fin (1 / 2)]]\<rparr>"

definition two_result :: backtest where
  "two_result = \<lparr>self_pnl = Some two_pnl,
                  self_portfolio = Some (two_portfolio\<lparr>columns := [''Port'']\<rparr>),
                  self_individual_leverage = None,
                  self_signal = Some two_positions,
                  self_portfolio_leverage = Some (ones two_pnl),
                  self_portfolio_signal = Some two_final_signal\<rparr>"

text \<open>The plain request with a combination mode the engine does not know.\<close>

definition odd_request :: request where
  "odd_request = plain_request(''portfolio_combination'' \<mapsto> VStr ''median'')"











text \<open>The plain request with the mean asked for by name.\<close>

definition mean_request :: request where
  "mean_request = plain_request(''portfolio_combination'' \<mapsto> VStr ''mean'')"

section \<open>Basic facts\<close>

lemma and_then_Inr: "and_then m k = Inr y \<longleftrightarrow> (\<exists>x. m = Inr x \<and> k x = Inr y)"
  by (cases m) (simp_all add: and_then_def)

lemma and_then_simps [simp]: "and_then (Inl e) k = Inl e" "and_then (Inr x) k = k x"
  by (simp_all add: and_then_def)

lemma length_nan_head [simp]: "length (nan_head n c) = length c"
  by (simp add: nan_head_def)

lemma nan_head_nth: "t < n \<Longrightarrow> t < length c \<Longrightarrow> nan_head n c ! t = NaN"
  by (simp add: nan_head_def nth_append)

lemma length_ffill_from [simp]: "length (ffill_from p xs) = length xs"
  by (induction xs arbitrary: p) simp_all

lemma length_reindex_col [simp]: "length (reindex_col old c new) = length new"
  by (simp add: reindex_col_def)

section \<open>The leverage calculator\<close>

text \<open>What a call that returns a frame has gone through.\<close>

lemma leverage_Some_cases:
  assumes "calculate_leverage_factor offsets returns_df vt ml vp obs freq rfreq rtype returns ps
           = Inr (Some lev)"
  obtains n vol x m lev_r where
    "rfreq = VNone" "as_window vp = Inr n"
    "rolling_volatility (if \<not> returns then calculate_returns returns_df else returns_df) n obs
     = Inr vol"
    "as_num vt = Inr x" "as_num ml = Inr m"
    "resample_time_series_frequency offsets
       (map_cells (clamp_max m) (map_cells (fl_div (Fin x)) (shift ps vol))) freq rtype
     = Inr (Some lev_r)"
    "lev = (ffill (snd (align_left (if \<not> returns then calculate_returns returns_df else returns_df) lev_r)))
            \<lparr>cells := map (nan_head n)
               (cells (ffill (snd (align_left
                  (if \<not> returns then calculate_returns returns_df else returns_df) lev_r))))\<rparr>"
  using assms
  by (auto simp: calculate_leverage_factor_def Let_def and_then_Inr split: if_splits option.splits)

text \<open>The example: a window of two observations, a cap of 5, weekly rebalancing.\<close>

lemma flat_rolling_volatility:
  "rolling_volatility flat_returns 2 (VInt 252)
   = Inr (flat_returns\<lparr>cells := [[NaN, Fin 0, Fin 0]]\<rparr>)"
  by (simp add: rolling_volatility_def flat_returns_def rolling_std_col_def window_std_def
      sample_var_def)

lemma flat_raw_leverage:
  "map_cells (clamp_max 5)
     (map_cells (fl_div (Fin (1 / 10))) (shift 0 (flat_returns\<lparr>cells := [[NaN, Fin 0, Fin 0]]\<rparr>)))
   = \<lparr>index = [3, 4, 7], columns = [''A''], cells = [[NaN, Fin 5, Fin 5]]\<rparr>"
  by (simp add: map_cells_def clamp_max_def shift_def shift_col_def flat_returns_def)

lemma flat_resampled:
  "resample_time_series_frequency example_calendar
     \<lparr>index = [3, 4, 7], columns = [''A''], cells = [[NaN, Fin 5, Fin 5]]\<rparr>
     (VStr ''W-FRI'') (VStr ''mean'')
   = Inr (Some \<lparr>index = [4, 11], columns = [''A''], cells = [[Fin 5, Fin 5]]\<rparr>)"
  by (simp add: resample_time_series_frequency_def example_calendar_def resample_def bin_of_def
      agg_mean_def valid_def)

lemma flat_realigned:
  "ffill (snd (align_left flat_returns
     \<lparr>index = [4, 11], columns = [''A''], cells = [[Fin 5, Fin 5]]\<rparr>))
   = \<lparr>index = [3, 4, 7], columns = [''A''], cells = [[NaN, Fin 5, Fin 5]]\<rparr>"
  by (simp add: align_left_def flat_returns_def reindex_col_def ffill_def)

lemma flat_leverage:
  "calculate_leverage_factor example_calendar flat_returns (VNum (1 / 10)) (VNum 5) (VInt 2)
     (VInt 252) (VStr ''W-FRI'') VNone (VStr ''mean'') True 0
   = Inr (Some \<lparr>index = [3, 4, 7], columns = [''A''], cells = [[NaN, NaN, Fin 5]]\<rparr>)"
  by (simp add: calculate_leverage_factor_def flat_rolling_volatility flat_raw_leverage
      flat_resampled flat_realigned nan_head_def)

text \<open>
  C7, as the code has it. The claim asks for an error when the pre-resampling frequency
  is set. The function instead returns at once, without a leverage frame and without
  raising: for every argument list whose \<open>data_resample_freq\<close> is not \<^verbatim>\<open>None\<close> the
  result is \<^verbatim>\<open>None\<close>.
\<close>

theorem leverage_resample_freq_returns_None:
  "data_resample_freq \<noteq> VNone \<Longrightarrow>
   calculate_leverage_factor offsets returns_df vol_target vol_max_leverage vol_periods
     vol_obs_in_year vol_rebalance_freq data_resample_freq data_resample_type returns period_shift
   = Inr None"
  by (simp add: calculate_leverage_factor_def)

theorem leverage_resample_freq_returns_None_witness:
  "VStr ''D'' \<noteq> VNone \<and>
   calculate_leverage_factor example_calendar flat_returns (VNum (1 / 10)) (VNum 5) (VInt 2)
     (VInt 252) (VStr ''W-FRI'') (VStr ''D'') (VStr ''mean'') True 0 = Inr None"
  using leverage_resample_freq_returns_None [of "VStr ''D''" example_calendar flat_returns
      "VNum (1 / 10)" "VNum 5" "VInt 2" "VInt 252" "VStr ''W-FRI''" "VStr ''mean''" True 0]
  by simp

text \<open>
  C7, as stated, fails: with daily pre-resampling requested on the example, the call
  yields \<^verbatim>\<open>None\<close> and no exception.
\<close>

theorem leverage_resample_freq_no_error:
  "calculate_leverage_factor example_calendar flat_returns (VNum (1 / 10)) (VNum 5) (VInt 2)
     (VInt 252) (VStr ''W-FRI'') (VStr ''D'') (VStr ''mean'') True 0 = Inr None"
  by (simp add: calculate_leverage_factor_def)

text \<open>
  C4: whenever the calculator returns a leverage frame, its first \<open>vol_periods\<close> rows
  are NaN in every column, whatever the resampling and the forward-fill put there.
\<close>

theorem leverage_warm_up_nan:
  assumes "calculate_leverage_factor offsets returns_df vol_target vol_max_leverage vol_periods
             vol_obs_in_year vol_rebalance_freq data_resample_freq data_resample_type returns
             period_shift = Inr (Some lev)"
    and "as_window vol_periods = Inr n"
    and "i < length (cells lev)" and "t < n" and "t < length (index lev)"
  shows "cell lev i t = NaN"
proof -
  from assms(1) obtain n' R lev_r where n': "as_window vol_periods = Inr n'"
    and lev: "lev = (ffill (snd (align_left R lev_r)))
                \<lparr>cells := map (nan_head n') (cells (ffill (snd (align_left R lev_r))))\<rparr>"
    by (rule leverage_Some_cases)
  from n' assms(2) have [simp]: "n' = n" by simp
  let ?cs = "cells (ffill (snd (align_left R lev_r)))"
  have i: "i < length ?cs" using assms(3) lev by simp
  have len: "length (?cs ! i) = length (index lev)"
    using i by (simp add: lev ffill_def align_left_def)
  have "cell lev i t = nan_head n (?cs ! i) ! t"
    using i by (simp add: cell_def lev)
  also have "\<dots> = NaN"
    using assms(4,5) len by (simp add: nan_head_nth)
  finally show ?thesis .
qed

theorem leverage_warm_up_nan_witness:
  "calculate_leverage_factor example_calendar flat_returns (VNum (1 / 10)) (VNum 5) (VInt 2)
     (VInt 252) (VStr ''W-FRI'') VNone (VStr ''mean'') True 0
   = Inr (Some \<lparr>index = [3, 4, 7], columns = [''A''], cells = [[NaN, NaN, Fin 5]]\<rparr>) \<and>
   as_window (VInt 2) = Inr 2 \<and>
   cell \<lparr>index = [3, 4, 7], columns = [''A''], cells = [[NaN, NaN, Fin 5]]\<rparr> 0 1 = NaN"
proof -
  have w: "as_window (VInt 2) = Inr 2" by simp
  show ?thesis
    using leverage_warm_up_nan [OF flat_leverage w, of 0 1] flat_leverage w by simp
qed

subsection \<open>The bound on the leverage\<close>






















subsection \<open>A constant return\<close>






lemma fin_vals_replicate [simp]: "fin_vals (replicate n (Fin r)) = replicate n r"
  by (induction n) simp_all



lemma length_shift_col [simp]: "length (shift_col k c) = length c"
  by (simp add: shift_col_def)

lemma length_rolling_std_col [simp]: "length (rolling_std_col n c) = length c"
  by (simp add: rolling_std_col_def)



lemma length_raw_leverage_col [simp]: "length (raw_leverage_col n y ps x m c) = length c"
  by (simp add: raw_leverage_col_def)









lemma length_rebalanced_col [simp]: "length (rebalanced_col b agg ix raw) = length ix"
  by (simp add: rebalanced_col_def)











section \<open>The P&L engine\<close>

text \<open>What a call that ends without an exception has gone through.\<close>

lemma PnL_success:
  assumes "calculate_trading_PnL offsets self br asset_a_df signal_df = (self', br', None)"
  obtains asset_df sig0 tc br1 sig lev pnl0 portfolio plev ps ann where
    "align_frames asset_a_df signal_df = Inr (asset_df, sig0)"
    "getattr br ''spot_tc_bp'' = Inr tc"
    "signal_vol_stage offsets br (calculate_returns asset_df) sig0 = (br1, Inr (sig, lev))"
    "calculate_signal_returns_with_tc_matrix (Some sig) (calculate_returns asset_df) tc = Inr pnl0"
    "portfolio_vol_stage offsets br1
       (combine br1 (pnl0\<lparr>columns := map2 (\<lambda>r s. r @ '' / '' @ s)
                                     (columns (calculate_returns asset_df)) (columns sig0)\<rparr>))
       (ones (pnl0\<lparr>columns := map2 (\<lambda>r s. r @ '' / '' @ s)
                                     (columns (calculate_returns asset_df)) (columns sig0)\<rparr>))
     = (br', Inr (Some portfolio, plev))"
    "portfolio_signal br' plev sig = Inr ps"
    "getattr br' ''ann_factor'' = Inr ann"
    "self_pnl self' = Some (pnl0\<lparr>columns := map2 (\<lambda>r s. r @ '' / '' @ s)
                                     (columns (calculate_returns asset_df)) (columns sig0)\<rparr>)"
    "self_signal self' = Some sig"
    "self_portfolio self' = Some (portfolio\<lparr>columns := [''Port'']\<rparr>)"
    "self_portfolio_leverage self' = Some plev"
    "self_portfolio_signal self' = Some ps"
    "self_individual_leverage self' =
       (case lev of None \<Rightarrow> self_individual_leverage self | Some l \<Rightarrow> Some l)"
  using assms unfolding calculate_trading_PnL_def Let_def
  by (auto split: sum.splits prod.splits option.splits)

lemma align_frames_Inr:
  assumes "align_frames asset_a_df signal_df = Inr (asset_df, sig0)"
  shows "length (columns signal_df) = length (columns asset_a_df)"
    and "asset_df = ffill asset_a_df"
    and "sig0 = ffill ((snd (align_left asset_a_df signal_df))
                 \<lparr>cells := map2 (map2 (\<lambda>v p. if isnan p then NaN else v))
                             (cells (snd (align_left asset_a_df signal_df)))
                             (cells asset_a_df)\<rparr>)"
  using assms
  by (auto simp: align_frames_def align_left_def mask_isnan_def shape_def and_then_Inr
      split: if_splits)

lemma shift_col_one_nth:
  "t < length c \<Longrightarrow> shift_col (Suc 0) c ! t = (if t = 0 then NaN else c ! (t - 1))"
  by (cases t) (simp_all add: shift_col_def nth_append)

lemma fl_NaN_right [simp]:
  "fl_add x NaN = NaN" "fl_mul x NaN = NaN" "fl_div x NaN = NaN"
  by (cases x; simp)+

lemma tc_cell_first [simp]: "tc_cell k NaN cur r = NaN"
  by (simp add: tc_cell_def fl_sub_def)

lemma tc_matrix_cell:
  assumes "calculate_signal_returns_with_tc_matrix (Some sig) ret tc = Inr pnl"
    and "i < length (cells sig)" and "i < length (cells ret)"
    and "t < length (cells sig ! i)" and "t < length (cells ret ! i)"
  shows "\<exists>k. as_num tc = Inr k \<and>
           cell pnl i t = (if t = 0 then NaN
                           else tc_cell k (cell sig i (t - 1)) (cell sig i t) (cell ret i t))"
proof -
  from assms(1) obtain k where k: "as_num tc = Inr k"
    and pnl: "pnl = ret\<lparr>cells := map2 (\<lambda>c r. map2 (\<lambda>(prev, cur) x. tc_cell k prev cur x)
                                            (zip (shift_col 1 c) c) r)
                                   (cells sig) (cells ret)\<rparr>"
    by (auto simp: calculate_signal_returns_with_tc_matrix_def and_then_Inr split: if_splits)
  have "cell pnl i t = tc_cell k (shift_col 1 (cells sig ! i) ! t) (cells sig ! i ! t)
                         (cells ret ! i ! t)"
    using assms(2-5) by (simp add: pnl cell_def)
  then show ?thesis
    using k assms(4) by (auto simp: shift_col_one_nth cell_def)
qed

lemma calculate_returns_cell:
  assumes "i < length (cells f)" and "t < length (cells f ! i)"
  shows "cell (calculate_returns f) i t =
           (if t = 0 then NaN else fl_sub (fl_div (cell f i t) (cell f i (t - 1))) (Fin 1))"
  using assms
  by (auto simp: calculate_returns_def cell_def shift_col_one_nth fl_sub_def)

lemma length_cells_calculate_returns [simp]:
  "length (cells (calculate_returns f)) = length (cells f)"
  by (simp add: calculate_returns_def)

lemma length_col_calculate_returns [simp]:
  "i < length (cells f) \<Longrightarrow> length (cells (calculate_returns f) ! i) = length (cells f ! i)"
  by (simp add: calculate_returns_def)

lemma length_cells_ffill [simp]: "length (cells (ffill f)) = length (cells f)"
  by (simp add: ffill_def)

lemma length_col_ffill [simp]:
  "i < length (cells f) \<Longrightarrow> length (cells (ffill f) ! i) = length (cells f ! i)"
  by (simp add: ffill_def)


subsection \<open>The two-asset example, step by step\<close>

lemma two_masked:
  "mask_isnan (snd (align_left two_prices two_signals)) (fst (align_left two_prices two_signals))
   = Inr \<lparr>index = [7, 8, 9], columns = [''X'', ''Y''],
          cells = [[NaN, Fin 1, Fin 2], [Fin 1, Fin 1, NaN]]\<rparr>"
  by (simp add: mask_isnan_def align_left_def two_prices_def two_signals_def shape_def
      reindex_col_def)

lemma two_aligned:
  "align_frames two_prices two_signals = Inr (two_filled_prices, two_positions)"
  using two_masked
  by (simp add: align_frames_def align_left_def ffill_def two_prices_def two_filled_prices_def
      two_positions_def)

lemma two_calculate_returns: "calculate_returns two_filled_prices = two_returns"
  by (simp add: calculate_returns_def two_filled_prices_def two_returns_def shift_col_def
      fl_sub_def)

lemma two_signal_vol_stage:
  "signal_vol_stage offsets plain_request two_returns two_positions
   = (plain_request, Inr (two_positions, None))"
  by (simp add: signal_vol_stage_def hasattr_def plain_request_def)

lemma two_tc_matrix:
  "calculate_signal_returns_with_tc_matrix (Some two_positions) two_returns (VNum (1 / 100))
   = Inr (two_pnl\<lparr>columns := [''A'', ''B'']\<rparr>)"
  by (simp add: calculate_signal_returns_with_tc_matrix_def two_positions_def two_returns_def
      two_pnl_def shape_def shift_col_def tc_cell_def fl_sub_def)

lemma two_relabelled:
  "(two_pnl\<lparr>columns := [''A'', ''B'']\<rparr>)
     \<lparr>columns := map2 (\<lambda>r s. r @ '' / '' @ s) (columns two_returns) (columns two_positions)\<rparr>
   = two_pnl"
  by (simp add: two_returns_def two_positions_def two_pnl_def)

lemma two_combine: "combine plain_request two_pnl = Some two_portfolio"
  by (simp add: combine_def hasattr_def plain_request_def across_def row_def two_pnl_def
      two_portfolio_def agg_mean_def valid_def)

lemma two_portfolio_vol_stage:
  "portfolio_vol_stage offsets plain_request (Some two_portfolio) (ones two_pnl)
   = (plain_request, Inr (Some two_portfolio, ones two_pnl))"
  by (simp add: portfolio_vol_stage_def hasattr_def plain_request_def)

lemma two_portfolio_signal:
  "portfolio_signal plain_request (ones two_pnl) two_positions = Inr two_final_signal"
  by (simp add: portfolio_signal_def divides_by_count_def hasattr_def plain_request_def
      flatten_def row_def ones_def two_pnl_def two_positions_def two_final_signal_def
      map_cells_def)

lemma two_run:
  "calculate_trading_PnL offsets init plain_request two_prices two_signals
   = (two_result, plain_request, None)"
proof -
  have tc: "getattr plain_request ''spot_tc_bp'' = Inr (VNum (1 / 100))"
    and ann: "getattr plain_request ''ann_factor'' = Inr (VInt 252)"
    by (simp_all add: getattr_def plain_request_def)
  have "calculate_trading_PnL offsets init plain_request two_prices two_signals
   = (init\<lparr>self_portfolio := Some two_portfolio, self_signal := Some two_positions,
            self_portfolio_leverage := Some (ones two_pnl),
            self_portfolio_signal := Some two_final_signal, self_pnl := Some two_pnl,
            self_portfolio := Some (two_portfolio\<lparr>columns := [''Port'']\<rparr>)\<rparr>,
      plain_request, None)"
    by (simp only: calculate_trading_PnL_def Let_def two_aligned two_calculate_returns tc ann
        two_signal_vol_stage two_tc_matrix two_relabelled two_combine two_portfolio_vol_stage
        two_portfolio_signal sum.case prod.case option.case)
  then show ?thesis by (simp add: init_def two_result_def)
qed

text \<open>The P&L cell by cell, for the cells that exist.\<close>

lemma pnl_cell_formula:
  assumes "calculate_trading_PnL offsets self br asset_a_df signal_df = (self', br', None)"
    and "self_pnl self' = Some pnl" and "self_signal self' = Some position"
    and "br ''spot_tc_bp'' = Some tc" and "as_num tc = Inr k"
    and "i < length (cells position)" and "t < length (cells position ! i)"
    and "i < length (cells asset_a_df)" and "t < length (cells asset_a_df ! i)"
    and "0 < t"
  shows "cell pnl i t =
           fl_sub (fl_mul (cell position i (t - 1)) (cell (calculate_returns (ffill asset_a_df)) i t))
                  (fl_mul (Fin k) (fl_abs (fl_sub (cell position i t) (cell position i (t - 1))))) \<and>
         cell (calculate_returns (ffill asset_a_df)) i t =
           fl_sub (fl_div (cell (ffill asset_a_df) i t) (cell (ffill asset_a_df) i (t - 1))) (Fin 1) \<and>
         cell pnl i 0 = NaN"
proof -
  from assms(1) obtain asset_df sig0 tc' sig pnl0 where
    al: "align_frames asset_a_df signal_df = Inr (asset_df, sig0)"
    and tc': "getattr br ''spot_tc_bp'' = Inr tc'"
    and m: "calculate_signal_returns_with_tc_matrix (Some sig) (calculate_returns asset_df) tc'
            = Inr pnl0"
    and p: "self_pnl self' = Some (pnl0\<lparr>columns := map2 (\<lambda>r s. r @ '' / '' @ s)
                                     (columns (calculate_returns asset_df)) (columns sig0)\<rparr>)"
    and s: "self_signal self' = Some sig"
    by (rule PnL_success)
  from al have asset_df: "asset_df = ffill asset_a_df" by (rule align_frames_Inr)
  from tc' assms(4) have [simp]: "tc' = tc" by (simp add: getattr_def)
  from s assms(3) have [simp]: "sig = position" by simp
  from p assms(2) have cells: "cell pnl i u = cell pnl0 i u" for u by (auto simp: cell_def)
  let ?ret = "calculate_returns (ffill asset_a_df)"
  have i: "i < length (cells ?ret)" and t: "t < length (cells ?ret ! i)"
    using assms(8,9) by simp_all
  have z: "0 < length (cells ?ret ! i)" "0 < length (cells position ! i)"
    using t assms(7,10) by linarith+
  from tc_matrix_cell [OF m [unfolded asset_df], of i t] assms(5,6,7,10) i t
  have 1: "cell pnl0 i t = tc_cell k (cell position i (t - 1)) (cell position i t) (cell ?ret i t)"
    by auto
  from tc_matrix_cell [OF m [unfolded asset_df], of i 0] assms(6) i z
  have 2: "cell pnl0 i 0 = NaN" by auto
  have 3: "cell ?ret i t = fl_sub (fl_div (cell (ffill asset_a_df) i t)
                                     (cell (ffill asset_a_df) i (t - 1))) (Fin 1)"
    using calculate_returns_cell [of i "ffill asset_a_df" t] assms(8-10) by simp
  from 1 2 3 show ?thesis by (simp add: cells tc_cell_def)
qed

subsection \<open>Alignment\<close>

lemma ffill_from_nan_nth:
  "t < length c \<Longrightarrow> isnan (c ! t) \<Longrightarrow>
   ffill_from p c ! t = (if t = 0 then p else ffill_from p c ! (t - 1))"
proof (induction c arbitrary: p t)
  case Nil
  then show ?case by simp
next
  case (Cons v c)
  show ?case
  proof (cases t)
    case 0
    then show ?thesis using Cons.prems by simp
  next
    case (Suc u)
    then have u: "u < length c" "isnan (c ! u)" using Cons.prems by simp_all
    show ?thesis
    proof (cases u)
      case 0
      then show ?thesis using u Suc by (cases c) auto
    next
      case (Suc w)
      then show ?thesis using Cons.IH [OF u] \<open>t = Suc u\<close> by simp
    qed
  qed
qed

lemma mask_isnan_cell:
  assumes "mask_isnan df other = Inr masked"
    and "i < length (cells df)" and "i < length (cells other)"
    and "t < length (cells df ! i)" and "t < length (cells other ! i)"
  shows "cell masked i t = (if isnan (cell other i t) then NaN else cell df i t)"
  using assms by (auto simp: mask_isnan_def cell_def split: if_splits)

text \<open>
  C2, as the code has it. Right after the mask, and before anything is forward-filled,
  the signal is NaN in every cell whose price is NaN. The forward-fill that ends the
  alignment then writes into such a cell the signal of the date before (NaN on the
  first date).
\<close>

theorem signal_masked_on_holidays:
  assumes "mask_isnan (snd (align_left asset_a_df signal_df)) (fst (align_left asset_a_df signal_df))
           = Inr masked"
    and "i < length (cells signal_df)" and "i < length (cells asset_a_df)"
    and "t < length (index asset_a_df)" and "t < length (cells asset_a_df ! i)"
    and "isnan (cell asset_a_df i t)"
  shows "cell masked i t = NaN \<and>
         align_frames asset_a_df signal_df = Inr (ffill asset_a_df, ffill masked) \<and>
         cell (ffill masked) i t = (if t = 0 then NaN else cell (ffill masked) i (t - 1))"
proof -
  let ?s = "snd (align_left asset_a_df signal_df)"
  have fst: "fst (align_left asset_a_df signal_df) = asset_a_df"
    by (simp add: align_left_def)
  have i: "i < length (cells ?s)" and t: "t < length (cells ?s ! i)"
    using assms(2,4) by (simp_all add: align_left_def)
  have 1: "cell masked i t = NaN"
    using mask_isnan_cell [OF assms(1) i _ t] assms(3,5,6) fst by simp
  have 2: "align_frames asset_a_df signal_df = Inr (ffill asset_a_df, ffill masked)"
    using assms(1) by (simp add: align_frames_def align_left_def)
  have im: "i < length (cells masked)" and tm: "t < length (cells masked ! i)"
    using assms(1) i t assms(3,5) fst by (auto simp: mask_isnan_def split: if_splits)
  have "cell (ffill masked) i t = ffill_from NaN (cells masked ! i) ! t"
    and "cell (ffill masked) i (t - 1) = ffill_from NaN (cells masked ! i) ! (t - 1)"
    using im by (simp_all add: cell_def ffill_def)
  moreover have "isnan (cells masked ! i ! t)" using 1 by (simp add: cell_def)
  ultimately have 3: "cell (ffill masked) i t = (if t = 0 then NaN else cell (ffill masked) i (t - 1))"
    using ffill_from_nan_nth [OF tm, of NaN] by simp
  from 1 2 3 show ?thesis by simp
qed

theorem signal_masked_on_holidays_witness:
  "mask_isnan (snd (align_left two_prices two_signals)) (fst (align_left two_prices two_signals))
     = Inr \<lparr>index = [7, 8, 9], columns = [''X'', ''Y''],
            cells = [[NaN, Fin 1, Fin 2], [Fin 1, Fin 1, NaN]]\<rparr> \<and>
   isnan (cell two_prices 1 2) \<and>
   cell \<lparr>index = [7, 8, 9], columns = [''X'', ''Y''],
         cells = [[NaN, Fin 1, Fin 2], [Fin 1, Fin 1, NaN]]\<rparr> 1 2 = NaN \<and>
   cell (ffill \<lparr>index = [7, 8, 9], columns = [''X'', ''Y''],
                cells = [[NaN, Fin 1, Fin 2], [Fin 1, Fin 1, NaN]]\<rparr>) 1 2 =
   cell (ffill \<lparr>index = [7, 8, 9], columns = [''X'', ''Y''],
                cells = [[NaN, Fin 1, Fin 2], [Fin 1, Fin 1, NaN]]\<rparr>) 1 1"
proof -
  have a: "1 < length (cells two_signals)" "1 < length (cells two_prices)"
    "2 < length (index two_prices)" "2 < length (cells two_prices ! 1)"
    by (simp_all add: two_signals_def two_prices_def)
  have b: "isnan (cell two_prices 1 2)" by (simp add: cell_def two_prices_def)
  show ?thesis
    using signal_masked_on_holidays [OF two_masked a b] two_masked b by simp
qed

text \<open>
  C2, as stated, fails for the signal that leaves the alignment step: on the Wednesday
  the second asset has no price, and the aligned signal holds the value 1 carried over
  from the Tuesday.
\<close>

theorem signal_filled_on_holiday:
  "align_frames two_prices two_signals = Inr (two_filled_prices, two_positions) \<and>
   isnan (cell two_prices 1 2) \<and> cell two_positions 1 2 = Fin 1 \<and>
   \<not> isnan (cell two_positions 1 2)"
  using two_aligned by (simp add: cell_def two_prices_def two_positions_def)

subsection \<open>Columns\<close>

lemma columns_calculate_returns [simp]: "columns (calculate_returns f) = columns f"
  by (simp add: calculate_returns_def)

lemma columns_ffill [simp]: "columns (ffill f) = columns f"
  by (simp add: ffill_def)

lemma columns_aligned:
  assumes "align_frames asset_a_df signal_df = Inr (asset_df, sig0)"
  shows "columns asset_df = columns asset_a_df" and "columns sig0 = columns signal_df"
  using align_frames_Inr(2,3) [OF assms] by (simp_all add: align_left_def)

text \<open>
  C8, as the code has it. Only the number of columns is checked, by the mask: when the
  signal has another number of columns than the prices the call raises
  \<^verbatim>\<open>ValueError\<close> and leaves the object and the request as they were. The labels are
  never compared: a call that ends normally has paired the columns by position, as the
  labels of the P&L show.
\<close>

theorem column_count_checked:
  "(length (columns signal_df) \<noteq> length (columns asset_a_df) \<longrightarrow>
      calculate_trading_PnL offsets self br asset_a_df signal_df = (self, br, Some ValueError)) \<and>
   (calculate_trading_PnL offsets self br asset_a_df signal_df = (self', br', None) \<longrightarrow>
      length (columns signal_df) = length (columns asset_a_df) \<and>
      (\<exists>pnl. self_pnl self' = Some pnl \<and>
             columns pnl = map2 (\<lambda>r s. r @ '' / '' @ s) (columns asset_a_df) (columns signal_df)))"
proof (intro conjI impI)
  assume "length (columns signal_df) \<noteq> length (columns asset_a_df)"
  then have "align_frames asset_a_df signal_df = Inl ValueError"
    by (simp add: align_frames_def align_left_def mask_isnan_def shape_def)
  then show "calculate_trading_PnL offsets self br asset_a_df signal_df = (self, br, Some ValueError)"
    by (simp add: calculate_trading_PnL_def)
next
  assume ok: "calculate_trading_PnL offsets self br asset_a_df signal_df = (self', br', None)"
  then obtain asset_df sig0 pnl0 where
    al: "align_frames asset_a_df signal_df = Inr (asset_df, sig0)"
    and p: "self_pnl self' = Some (pnl0\<lparr>columns := map2 (\<lambda>r s. r @ '' / '' @ s)
                                     (columns (calculate_returns asset_df)) (columns sig0)\<rparr>)"
    by (rule PnL_success)
  show "length (columns signal_df) = length (columns asset_a_df)"
    using al by (rule align_frames_Inr)
  show "\<exists>pnl. self_pnl self' = Some pnl \<and>
             columns pnl = map2 (\<lambda>r s. r @ '' / '' @ s) (columns asset_a_df) (columns signal_df)"
    using p columns_aligned [OF al] by simp
qed

theorem column_count_checked_witness:
  "length (columns flat_returns) \<noteq> length (columns two_prices) \<and>
   calculate_trading_PnL example_calendar init plain_request two_prices flat_returns
     = (init, plain_request, Some ValueError) \<and>
   calculate_trading_PnL example_calendar init plain_request two_prices two_signals
     = (two_result, plain_request, None) \<and>
   length (columns two_signals) = length (columns two_prices) \<and>
   self_pnl two_result = Some two_pnl \<and>
   columns two_pnl = map2 (\<lambda>r s. r @ '' / '' @ s) (columns two_prices) (columns two_signals)"
proof -
  have a: "length (columns flat_returns) \<noteq> length (columns two_prices)"
    by (simp add: flat_returns_def two_prices_def)
  have b: "self_pnl two_result = Some two_pnl" by (simp add: two_result_def)
  from column_count_checked [of flat_returns two_prices example_calendar init plain_request] a
  have 1: "calculate_trading_PnL example_calendar init plain_request two_prices flat_returns
     = (init, plain_request, Some ValueError)" by blast
  from column_count_checked [of two_signals two_prices example_calendar init plain_request
      two_result plain_request] two_run b
  have 2: "length (columns two_signals) = length (columns two_prices)"
    and 3: "columns two_pnl = map2 (\<lambda>r s. r @ '' / '' @ s) (columns two_prices) (columns two_signals)"
    by auto
  from a b 1 2 3 two_run show ?thesis by blast
qed

text \<open>
  C8, as stated, fails for column sets: the prices are labelled A and B, the signals X
  and Y, no label is shared, and the call ends normally.
\<close>

theorem disjoint_labels_accepted:
  "calculate_trading_PnL example_calendar init plain_request two_prices two_signals
     = (two_result, plain_request, None) \<and>
   columns two_prices = [''A'', ''B''] \<and> columns two_signals = [''X'', ''Y''] \<and>
   set (columns two_prices) \<inter> set (columns two_signals) = {}"
  using two_run [of example_calendar] by (simp add: two_prices_def two_signals_def)

subsection \<open>The request\<close>

lemma is_True_hasattr: "is_True br a \<Longrightarrow> hasattr br a"
  by (simp add: is_True_def hasattr_def)

lemma set_default_keeps: "br a = Some v \<Longrightarrow> set_default br b w a = Some v"
  by (auto simp: set_default_def hasattr_def)

lemma set_default_other: "a \<noteq> b \<Longrightarrow> set_default br b w a = br a"
  by (simp add: set_default_def)

lemma resample_defaults_keeps: "br a = Some v \<Longrightarrow> resample_defaults br prefix a = Some v"
  by (simp add: resample_defaults_def set_default_keeps)

lemma resample_defaults_other:
  "a \<noteq> prefix @ ''_vol_resample_type'' \<Longrightarrow> a \<noteq> prefix @ ''_vol_resample_freq'' \<Longrightarrow>
   resample_defaults br prefix a = br a"
  by (simp add: resample_defaults_def set_default_other)

lemma signal_vol_stage_request:
  "fst (signal_vol_stage offsets br returns_df signal_df)
   = (if is_True br ''signal_vol_adjust'' then resample_defaults br ''signal'' else br)"
  by (auto simp: signal_vol_stage_def Let_def is_True_hasattr)

lemma calculate_vol_adjusted_returns_request:
  "fst (calculate_vol_adjusted_returns offsets returns_df br returns)
   = resample_defaults br ''portfolio''"
  by (simp add: calculate_vol_adjusted_returns_def Let_def)

lemma portfolio_vol_stage_request:
  "fst (portfolio_vol_stage offsets br portfolio plev)
   = (if is_True br ''portfolio_vol_adjust'' \<and> portfolio \<noteq> None
      then resample_defaults br ''portfolio'' else br)"
proof (cases portfolio)
  case None
  then show ?thesis by (simp add: portfolio_vol_stage_def)
next
  case (Some p)
  obtain b r where c: "calculate_vol_adjusted_returns offsets p br True = (b, r)"
    by (cases "calculate_vol_adjusted_returns offsets p br True")
  then have "b = resample_defaults br ''portfolio''"
    using calculate_vol_adjusted_returns_request [of offsets p br True] by simp
  then show ?thesis
    using Some c by (auto simp: portfolio_vol_stage_def is_True_hasattr split: sum.splits)
qed

lemma portfolio_vol_stage_unbound:
  "portfolio_vol_stage offsets br None plev \<noteq> (br', Inr (Some p, plev'))"
  by (simp add: portfolio_vol_stage_def)

lemma combine_unknown:
  "br ''portfolio_combination'' = Some v \<Longrightarrow> v \<noteq> VStr ''sum'' \<Longrightarrow> v \<noteq> VStr ''mean'' \<Longrightarrow>
   combine br pnl = None"
  by (simp add: combine_def hasattr_def)

lemma combine_absent:
  "br ''portfolio_combination'' = None \<Longrightarrow> combine br pnl = Some (across agg_mean pnl)"
  by (simp add: combine_def hasattr_def)

text \<open>Where the object's portfolio can come from.\<close>

lemma PnL_portfolio_assigned:
  assumes "self_portfolio (fst (calculate_trading_PnL offsets self br asset_a_df signal_df))
           \<noteq> self_portfolio self"
  obtains r s x pnl plev br' p plev' where
    "portfolio_vol_stage offsets (fst (signal_vol_stage offsets br r s))
       (combine (fst (signal_vol_stage offsets br r s)) pnl) plev = (br', Inr (Some p, plev'))"
  using assms unfolding calculate_trading_PnL_def Let_def
  by (auto split: sum.splits prod.splits option.splits) (metis fst_conv)+

text \<open>
  C10: when the request has a \<^verbatim>\<open>portfolio_combination\<close> that is neither \<^verbatim>\<open>'sum'\<close>
  nor \<^verbatim>\<open>'mean'\<close>, the call ends with an exception and the object's portfolio is what
  it was before the call; the local \<^verbatim>\<open>portfolio\<close> is never assigned. The mean is the
  default only for a request without the attribute.
\<close>

theorem unknown_combination_fails:
  assumes "br ''portfolio_combination'' = Some v" and "v \<noteq> VStr ''sum''" and "v \<noteq> VStr ''mean''"
  shows "(\<exists>e. snd (snd (calculate_trading_PnL offsets self br asset_a_df signal_df)) = Some e) \<and>
         self_portfolio (fst (calculate_trading_PnL offsets self br asset_a_df signal_df))
           = self_portfolio self \<and>
         combine br pnl = None \<and>
         (other ''portfolio_combination'' = None \<longrightarrow> combine other pnl = Some (across agg_mean pnl))"
proof -
  have keep: "fst (signal_vol_stage offsets br r s) ''portfolio_combination'' = Some v" for r s
    using assms(1) by (simp add: signal_vol_stage_request resample_defaults_keeps)
  have none: "combine (fst (signal_vol_stage offsets br r s)) p = None" for r s p
    by (rule combine_unknown [where v = v]) (use keep assms(2,3) in simp_all)
  have 1: "self_portfolio (fst (calculate_trading_PnL offsets self br asset_a_df signal_df))
           = self_portfolio self"
  proof (rule ccontr)
    assume "\<not> ?thesis"
    then show False
      by (rule PnL_portfolio_assigned) (simp add: none portfolio_vol_stage_unbound)
  qed
  have 2: "\<exists>e. snd (snd (calculate_trading_PnL offsets self br asset_a_df signal_df)) = Some e"
  proof (rule ccontr)
    assume "\<not> ?thesis"
    then obtain self' br' where
      "calculate_trading_PnL offsets self br asset_a_df signal_df = (self', br', None)"
      by (metis option.exhaust prod.collapse)
    then obtain asset_df sig0 br1 sig lev pnl0 portfolio plev where
      s: "signal_vol_stage offsets br (calculate_returns asset_df) sig0 = (br1, Inr (sig, lev))"
      and p: "portfolio_vol_stage offsets br1
       (combine br1 (pnl0\<lparr>columns := map2 (\<lambda>r s. r @ '' / '' @ s)
                                     (columns (calculate_returns asset_df)) (columns sig0)\<rparr>))
       (ones (pnl0\<lparr>columns := map2 (\<lambda>r s. r @ '' / '' @ s)
                                     (columns (calculate_returns asset_df)) (columns sig0)\<rparr>))
       = (br', Inr (Some portfolio, plev))"
      by (rule PnL_success)
    from s have "br1 = fst (signal_vol_stage offsets br (calculate_returns asset_df) sig0)"
      by simp
    with p none portfolio_vol_stage_unbound show False by metis
  qed
  have 3: "combine br pnl = None"
    by (rule combine_unknown [where v = v]) (use assms in simp_all)
  from 1 2 3 combine_absent show ?thesis by blast
qed

lemma odd_signal_vol_stage:
  "signal_vol_stage offsets odd_request two_returns two_positions
   = (odd_request, Inr (two_positions, None))"
  by (simp add: signal_vol_stage_def hasattr_def odd_request_def plain_request_def)

lemma odd_portfolio_vol_stage:
  "portfolio_vol_stage offsets odd_request None (ones two_pnl)
   = (odd_request, Inr (None, ones two_pnl))"
  by (simp add: portfolio_vol_stage_def hasattr_def odd_request_def plain_request_def)

lemma odd_run:
  "calculate_trading_PnL offsets init odd_request two_prices two_signals
   = (init, odd_request, Some (UnboundLocalError ''portfolio''))"
proof -
  have tc: "getattr odd_request ''spot_tc_bp'' = Inr (VNum (1 / 100))"
    by (simp add: getattr_def odd_request_def plain_request_def)
  have c: "combine odd_request two_pnl = None"
    by (simp add: combine_def hasattr_def odd_request_def)
  show ?thesis
    by (simp only: calculate_trading_PnL_def Let_def two_aligned two_calculate_returns tc
        odd_signal_vol_stage two_tc_matrix two_relabelled c odd_portfolio_vol_stage
        sum.case prod.case option.case)
qed

theorem unknown_combination_fails_witness:
  "odd_request ''portfolio_combination'' = Some (VStr ''median'') \<and>
   VStr ''median'' \<noteq> VStr ''sum'' \<and> VStr ''median'' \<noteq> VStr ''mean'' \<and>
   calculate_trading_PnL example_calendar init odd_request two_prices two_signals
     = (init, odd_request, Some (UnboundLocalError ''portfolio'')) \<and>
   (\<exists>e. snd (snd (calculate_trading_PnL example_calendar init odd_request two_prices two_signals))
          = Some e) \<and>
   self_portfolio (fst (calculate_trading_PnL example_calendar init odd_request two_prices
                          two_signals)) = None \<and>
   plain_request ''portfolio_combination'' = None \<and>
   combine plain_request two_pnl = Some (across agg_mean two_pnl)"
proof -
  have a: "odd_request ''portfolio_combination'' = Some (VStr ''median'')"
    by (simp add: odd_request_def)
  have b: "VStr ''median'' \<noteq> VStr ''sum''" "VStr ''median'' \<noteq> VStr ''mean''" by simp_all
  have c: "plain_request ''portfolio_combination'' = None" by (simp add: plain_request_def)
  have d: "self_portfolio init = None" by (simp add: init_def)
  show ?thesis
    using unknown_combination_fails [where br = odd_request and v = "VStr ''median''"
        and offsets = example_calendar and self = init and asset_a_df = two_prices
        and signal_df = two_signals and pnl = two_pnl and other = plain_request, OF a b]
      a b c d odd_run [of example_calendar]
    by simp
qed

subsection \<open>The request after the call\<close>








subsection \<open>The one-asset example with a volatility target, step by step\<close>




















subsection \<open>Shapes\<close>

lemma leverage_shape:
  assumes "calculate_leverage_factor offsets returns_df vt ml vp obs freq rfreq rtype True ps
           = Inr (Some lev)"
  shows "index lev = index returns_df"
    and "length (cells lev) = length (cells returns_df)"
    and "\<forall>c\<in>set (cells lev). length c = length (index returns_df)"
proof -
  from assms obtain n vol x m lev_r where
    vol: "rolling_volatility returns_df n obs = Inr vol"
    and res: "resample_time_series_frequency offsets
       (map_cells (clamp_max m) (map_cells (fl_div (Fin x)) (shift ps vol))) freq rtype
       = Inr (Some lev_r)"
    and lev: "lev = (ffill (snd (align_left returns_df lev_r)))
            \<lparr>cells := map (nan_head n) (cells (ffill (snd (align_left returns_df lev_r))))\<rparr>"
    by (rule leverage_Some_cases) simp_all
  from vol have v: "length (cells vol) = length (cells returns_df)"
    by (auto simp: rolling_volatility_def split: sum.splits if_splits)
  from res obtain b agg where
    "lev_r = resample b agg (map_cells (clamp_max m) (map_cells (fl_div (Fin x)) (shift ps vol)))"
    by (auto simp: resample_time_series_frequency_def Let_def
        split: if_splits option.splits pyval.splits)
  then have r: "length (cells lev_r) = length (cells returns_df)"
    using v by (simp add: resample_def Let_def map_cells_def shift_def)
  show "index lev = index returns_df"
    by (simp add: lev ffill_def align_left_def)
  show "length (cells lev) = length (cells returns_df)"
    using r by (simp add: lev ffill_def align_left_def)
  show "\<forall>c\<in>set (cells lev). length c = length (index returns_df)"
    by (auto simp: lev ffill_def align_left_def)
qed

lemma concat_rows_single: "cells f = [c] \<Longrightarrow> concat (map (row f) ts) = map (\<lambda>t. c ! t) ts"
  by (induction ts) (simp_all add: row_def)

lemma flatten_single:
  assumes "cells f = [c]" and "length c = length (index f)"
  shows "flatten f = c"
proof -
  have "flatten f = map (\<lambda>t. c ! t) [0..<length c]"
    using assms by (simp add: flatten_def concat_rows_single)
  also have "\<dots> = c" by (rule map_nth)
  finally show ?thesis .
qed

lemma portfolio_vol_stage_leverage:
  assumes "portfolio_vol_stage offsets br (Some p) (ones pnl) = (br', Inr (Some p', plev))"
    and "length (cells p) = 1" and "index p = index pnl"
  shows "\<exists>c. cells plev = [c] \<and> length c = length (index plev) \<and>
             length (index plev) = length (index pnl)"
proof (cases "hasattr br ''portfolio_vol_adjust'' \<and> is_True br ''portfolio_vol_adjust''")
  case False
  then have "plev = ones pnl" using assms(1) by (auto simp: portfolio_vol_stage_def)
  then show ?thesis by (simp add: ones_def)
next
  case True
  then have "calculate_vol_adjusted_returns offsets p br True = (br', Inr (p', plev))"
    using assms(1) by (auto simp: portfolio_vol_stage_def split: prod.splits sum.splits)
  then have "leverage_for offsets (resample_defaults br ''portfolio'') ''portfolio'' p
             = Inr (Some plev)"
    by (auto simp: calculate_vol_adjusted_returns_def Let_def and_then_Inr split: option.splits)
  then obtain vt ml vp obs freq rfreq rtype where
    "calculate_leverage_factor offsets p vt ml vp obs freq rfreq rtype True 0 = Inr (Some plev)"
    by (auto simp: leverage_for_def and_then_Inr)
  from leverage_shape [OF this] assms(2,3)
  have "index plev = index pnl" "length (cells plev) = 1"
    "\<forall>c\<in>set (cells plev). length c = length (index pnl)"
    by simp_all
  then show ?thesis by (cases "cells plev") auto
qed

lemma portfolio_vol_stage_off:
  assumes "\<not> is_True br ''portfolio_vol_adjust''"
  shows "portfolio_vol_stage offsets br portfolio plev = (br, Inr (portfolio, plev))"
  using assms by (simp add: portfolio_vol_stage_def)

lemma combine_mean:
  assumes "br ''portfolio_combination'' = None \<or> br ''portfolio_combination'' = Some (VStr ''mean'')"
  shows "combine br pnl = Some (across agg_mean pnl)" and "divides_by_count br"
  using assms by (auto simp: combine_def divides_by_count_def hasattr_def)

lemma agg_mean_all_valid:
  assumes "\<forall>v\<in>set w. \<not> isnan v"
  shows "agg_mean w = fl_div (foldr fl_add w (Fin 0)) (Fin (real (length w)))"
proof -
  have "valid w = w" using assms by (simp add: valid_def)
  then show ?thesis by (cases w) (simp_all add: agg_mean_def)
qed

lemma portfolio_signal_cell:
  assumes "portfolio_signal br plev sig = Inr ps" and "divides_by_count br"
    and "i < length (cells sig)" and "t < length (cells sig ! i)" and "t < length (flatten plev)"
  shows "cell ps i t = fl_div (fl_mul (flatten plev ! t) (cell sig i t))
                          (Fin (real (length (columns sig))))"
  using assms
  by (auto simp: portfolio_signal_def Let_def map_cells_def cell_def split: if_splits)

lemma tc_matrix_index:
  "calculate_signal_returns_with_tc_matrix sig ret tc = Inr pnl \<Longrightarrow> index pnl = index ret"
  by (auto simp: calculate_signal_returns_with_tc_matrix_def and_then_Inr
      split: option.splits if_splits)

lemma index_calculate_returns [simp]: "index (calculate_returns f) = index f"
  by (simp add: calculate_returns_def)

lemma index_ffill [simp]: "index (ffill f) = index f"
  by (simp add: ffill_def)


lemma across_cell:
  "t < length (index f) \<Longrightarrow> cell ((across agg f)\<lparr>columns := cs\<rparr>) 0 t = agg (row f t)"
  by (simp add: across_def cell_def)

lemma mean_kept_by_signal_vol_stage:
  assumes "br ''portfolio_combination'' = None \<or> br ''portfolio_combination'' = Some (VStr ''mean'')"
    and "signal_vol_stage offsets br r s = (br1, x)"
  shows "br1 ''portfolio_combination'' = None \<or> br1 ''portfolio_combination'' = Some (VStr ''mean'')"
    and "is_True br1 ''portfolio_vol_adjust'' = is_True br ''portfolio_vol_adjust''"
proof -
  have "br1 = fst (signal_vol_stage offsets br r s)" using assms(2) by simp
  then have "br1 = br \<or> br1 = resample_defaults br ''signal''"
    by (simp add: signal_vol_stage_request)
  then show "br1 ''portfolio_combination'' = None \<or> br1 ''portfolio_combination'' = Some (VStr ''mean'')"
    and "is_True br1 ''portfolio_vol_adjust'' = is_True br ''portfolio_vol_adjust''"
    using assms(1) by (auto simp: resample_defaults_other is_True_def)
qed

lemma mean_kept_by_portfolio_vol_stage:
  assumes "br ''portfolio_combination'' = None \<or> br ''portfolio_combination'' = Some (VStr ''mean'')"
    and "portfolio_vol_stage offsets br p plev = (br', x)"
  shows "br' ''portfolio_combination'' = None \<or> br' ''portfolio_combination'' = Some (VStr ''mean'')"
proof -
  have "br' = fst (portfolio_vol_stage offsets br p plev)" using assms(2) by simp
  then have "br' = br \<or> br' = resample_defaults br ''portfolio''"
    by (simp add: portfolio_vol_stage_request)
  then show ?thesis using assms(1) by (auto simp: resample_defaults_other)
qed

text \<open>The final signal and the portfolio P&L cell by cell, for the cells that exist.\<close>

lemma mean_combination_cells:
  assumes "calculate_trading_PnL offsets self br asset_a_df signal_df = (self', br', None)"
    and "br ''portfolio_combination'' = None \<or> br ''portfolio_combination'' = Some (VStr ''mean'')"
    and "self_pnl self' = Some pnl" and "self_portfolio self' = Some portfolio"
    and "self_signal self' = Some position" and "self_portfolio_leverage self' = Some leverage"
    and "self_portfolio_signal self' = Some final"
    and "t < length (index asset_a_df)"
    and "i < length (cells position)" and "t < length (cells position ! i)"
  shows "cell final i t = fl_div (fl_mul (cell leverage 0 t) (cell position i t))
                             (Fin (real (length (columns position)))) \<and>
         (\<not> is_True br ''portfolio_vol_adjust'' \<longrightarrow>
            cell portfolio 0 t = agg_mean (row pnl t) \<and>
            ((\<forall>v\<in>set (row pnl t). \<not> isnan v) \<longrightarrow>
               cell portfolio 0 t = fl_div (foldr fl_add (row pnl t) (Fin 0))
                                      (Fin (real (length (row pnl t))))))"
proof -
  from assms(1) obtain asset_df sig0 tc br1 sig lev pnl0 portfolio0 plev ps where
    al: "align_frames asset_a_df signal_df = Inr (asset_df, sig0)"
    and svs: "signal_vol_stage offsets br (calculate_returns asset_df) sig0 = (br1, Inr (sig, lev))"
    and m: "calculate_signal_returns_with_tc_matrix (Some sig) (calculate_returns asset_df) tc
            = Inr pnl0"
    and pvs: "portfolio_vol_stage offsets br1
       (combine br1 (pnl0\<lparr>columns := map2 (\<lambda>r s. r @ '' / '' @ s)
                                     (columns (calculate_returns asset_df)) (columns sig0)\<rparr>))
       (ones (pnl0\<lparr>columns := map2 (\<lambda>r s. r @ '' / '' @ s)
                                     (columns (calculate_returns asset_df)) (columns sig0)\<rparr>))
     = (br', Inr (Some portfolio0, plev))"
    and psig: "portfolio_signal br' plev sig = Inr ps"
    and f: "self_pnl self' = Some (pnl0\<lparr>columns := map2 (\<lambda>r s. r @ '' / '' @ s)
                                     (columns (calculate_returns asset_df)) (columns sig0)\<rparr>)"
      "self_signal self' = Some sig"
      "self_portfolio self' = Some (portfolio0\<lparr>columns := [''Port'']\<rparr>)"
      "self_portfolio_leverage self' = Some plev"
      "self_portfolio_signal self' = Some ps"
    by (rule PnL_success)
  from f assms(3-7) have eqs: "pnl = pnl0\<lparr>columns := map2 (\<lambda>r s. r @ '' / '' @ s)
                                     (columns (calculate_returns asset_df)) (columns sig0)\<rparr>"
    "sig = position" "portfolio = portfolio0\<lparr>columns := [''Port'']\<rparr>" "plev = leverage"
    "ps = final"
    by simp_all
  have ix: "index pnl = index asset_a_df"
    using tc_matrix_index [OF m] align_frames_Inr(2) [OF al] by (simp add: eqs)
  have mean1: "br1 ''portfolio_combination'' = None \<or>
               br1 ''portfolio_combination'' = Some (VStr ''mean'')"
    and pv1: "is_True br1 ''portfolio_vol_adjust'' = is_True br ''portfolio_vol_adjust''"
    using mean_kept_by_signal_vol_stage [of br, OF assms(2) svs] by simp_all
  have comb: "combine br1 pnl = Some (across agg_mean pnl)"
    using combine_mean(1) [of br1, OF mean1] .
  have pvs': "portfolio_vol_stage offsets br1 (Some (across agg_mean pnl)) (ones pnl)
              = (br', Inr (Some portfolio0, leverage))"
    using pvs comb by (simp add: eqs)
  have div: "divides_by_count br'"
    using combine_mean(2) [of br'] mean_kept_by_portfolio_vol_stage [of br1, OF mean1 pvs'] by blast
  from portfolio_vol_stage_leverage [OF pvs'] obtain c where
    c: "cells leverage = [c]" "length c = length (index leverage)"
       "length (index leverage) = length (index pnl)"
    by (auto simp: across_def)
  have fl: "flatten leverage = c" using flatten_single [OF c(1,2)] .
  have 1: "cell final i t = fl_div (fl_mul (cell leverage 0 t) (cell position i t))
                             (Fin (real (length (columns position))))"
    using portfolio_signal_cell [OF psig div, of i t] assms(8-10) c fl ix
    by (simp add: eqs cell_def)
  have 2: "cell portfolio 0 t = agg_mean (row pnl t)" if "\<not> is_True br ''portfolio_vol_adjust''"
  proof -
    have "portfolio_vol_stage offsets br1 (Some (across agg_mean pnl)) (ones pnl)
          = (br1, Inr (Some (across agg_mean pnl), ones pnl))"
      using that pv1 by (simp add: portfolio_vol_stage_off)
    with pvs' have "portfolio0 = across agg_mean pnl" by simp
    then show ?thesis using assms(8) ix by (simp add: eqs(3) across_cell)
  qed
  from 1 2 agg_mean_all_valid [of "row pnl t"] show ?thesis by auto
qed

lemma mean_signal_vol_stage:
  "signal_vol_stage offsets mean_request two_returns two_positions
   = (mean_request, Inr (two_positions, None))"
  by (simp add: signal_vol_stage_def hasattr_def mean_request_def plain_request_def)

lemma mean_combine: "combine mean_request two_pnl = Some two_portfolio"
  by (simp add: combine_def hasattr_def mean_request_def across_def row_def two_pnl_def
      two_portfolio_def agg_mean_def valid_def)

lemma mean_portfolio_vol_stage:
  "portfolio_vol_stage offsets mean_request (Some two_portfolio) (ones two_pnl)
   = (mean_request, Inr (Some two_portfolio, ones two_pnl))"
  by (simp add: portfolio_vol_stage_def hasattr_def mean_request_def plain_request_def)

lemma mean_portfolio_signal:
  "portfolio_signal mean_request (ones two_pnl) two_positions = Inr two_final_signal"
  by (simp add: portfolio_signal_def divides_by_count_def hasattr_def mean_request_def
      flatten_def row_def ones_def two_pnl_def two_positions_def two_final_signal_def
      map_cells_def)

lemma mean_run:
  "calculate_trading_PnL offsets init mean_request two_prices two_signals
   = (two_result, mean_request, None)"
proof -
  have tc: "getattr mean_request ''spot_tc_bp'' = Inr (VNum (1 / 100))"
    and ann: "getattr mean_request ''ann_factor'' = Inr (VInt 252)"
    by (simp_all add: getattr_def mean_request_def plain_request_def)
  have "calculate_trading_PnL offsets init mean_request two_prices two_signals
   = (init\<lparr>self_portfolio := Some two_portfolio, self_signal := Some two_positions,
            self_portfolio_leverage := Some (ones two_pnl),
            self_portfolio_signal := Some two_final_signal, self_pnl := Some two_pnl,
            self_portfolio := Some (two_portfolio\<lparr>columns := [''Port'']\<rparr>)\<rparr>,
      mean_request, None)"
    by (simp only: calculate_trading_PnL_def Let_def two_aligned two_calculate_returns tc ann
        mean_signal_vol_stage two_tc_matrix two_relabelled mean_combine mean_portfolio_vol_stage
        mean_portfolio_signal sum.case prod.case option.case)
  then show ?thesis by (simp add: init_def two_result_def)
qed

text \<open>
  C6, as stated, fails: on the Tuesday of the two-asset example the first asset has no
  P&L yet (NaN) and the second has 1/10; the portfolio P&L is 1/10, the mean of the one
  valid value, and not the arithmetic mean of the two per-asset values, which is NaN
  (and would be 1/20 if the missing value counted as zero).
\<close>

theorem mean_skips_missing_assets:
  "calculate_trading_PnL example_calendar init mean_request two_prices two_signals
     = (two_result, mean_request, None) \<and>
   mean_request ''portfolio_combination'' = Some (VStr ''mean'') \<and>
   self_pnl two_result = Some two_pnl \<and>
   self_portfolio two_result = Some (two_portfolio\<lparr>columns := [''Port'']\<rparr>) \<and>
   row two_pnl 1 = [NaN, Fin (1 / 10)] \<and>
   cell (two_portfolio\<lparr>columns := [''Port'']\<rparr>) 0 1 = Fin (1 / 10) \<and>
   fl_div (foldr fl_add (row two_pnl 1) (Fin 0)) (Fin 2) = NaN \<and>
   cell (two_portfolio\<lparr>columns := [''Port'']\<rparr>) 0 1
     \<noteq> fl_div (foldr fl_add (row two_pnl 1) (Fin 0)) (Fin 2)"
  using mean_run [of example_calendar]
  by (simp add: mean_request_def two_result_def row_def two_pnl_def cell_def two_portfolio_def)

subsection \<open>Every cell of the stored signal exists\<close>

lemma wf_frame_cells:
  assumes "wf_frame f"
  shows "length (cells f) = length (columns f)"
    and "i < length (cells f) \<Longrightarrow> length (cells f ! i) = length (index f)"
  using assms by (simp_all add: wf_frame_def list_all_length)

lemma aligned_signal_shape:
  assumes "align_frames asset_a_df signal_df = Inr (asset_df, sig0)"
    and "wf_frame asset_a_df" and "wf_frame signal_df"
  shows "length (cells sig0) = length (columns asset_a_df)"
    and "\<forall>c\<in>set (cells sig0). length c = length (index asset_a_df)"
    and "index sig0 = index asset_a_df" and "length (columns sig0) = length (columns asset_a_df)"
proof -
  let ?re = "map (\<lambda>c. reindex_col (index signal_df) c (index asset_a_df)) (cells signal_df)"
  have n: "length (columns signal_df) = length (columns asset_a_df)"
    using assms(1) by (rule align_frames_Inr)
  have sig0: "cells sig0 = map (ffill_from NaN)
                 (map2 (map2 (\<lambda>v p. if isnan p then NaN else v)) ?re (cells asset_a_df))"
    using align_frames_Inr(3) [OF assms(1)] by (simp add: ffill_def align_left_def)
  show "length (cells sig0) = length (columns asset_a_df)"
    using n wf_frame_cells(1) [OF assms(2)] wf_frame_cells(1) [OF assms(3)] by (simp add: sig0)
  show "\<forall>c\<in>set (cells sig0). length c = length (index asset_a_df)"
  proof
    fix c assume "c \<in> set (cells sig0)"
    then obtain x y where "(x, y) \<in> set (zip ?re (cells asset_a_df))"
      and c: "c = ffill_from NaN (map2 (\<lambda>v p. if isnan p then NaN else v) x y)"
      by (auto simp: sig0)
    then have "x \<in> set ?re" "y \<in> set (cells asset_a_df)"
      by (auto dest: set_zip_leftD set_zip_rightD)
    then have "length x = length (index asset_a_df)" "length y = length (index asset_a_df)"
      using assms(2) by (auto simp: wf_frame_def list_all_iff)
    then show "length c = length (index asset_a_df)" by (simp add: c)
  qed
  show "index sig0 = index asset_a_df" "length (columns sig0) = length (columns asset_a_df)"
    using align_frames_Inr(3) [OF assms(1)] n by (simp_all add: ffill_def align_left_def)
qed

lemma mul_values_shape:
  assumes "mul_values a b = Inr c"
    and "\<forall>x\<in>set (cells a). length x = n" and "\<forall>y\<in>set (cells b). length y = n"
    and "length (cells a) = k" and "length (cells b) = k"
  shows "length (cells c) = k" and "\<forall>z\<in>set (cells c). length z = n"
proof -
  from assms(1) have c: "cells c = map2 (map2 fl_mul) (cells a) (cells b)"
    by (auto simp: mul_values_def split: if_splits)
  show "length (cells c) = k" using assms(4,5) by (simp add: c)
  show "\<forall>z\<in>set (cells c). length z = n"
  proof
    fix z assume "z \<in> set (cells c)"
    then obtain x y where "(x, y) \<in> set (zip (cells a) (cells b))" and z: "z = map2 fl_mul x y"
      by (auto simp: c)
    then have "x \<in> set (cells a)" "y \<in> set (cells b)"
      by (auto dest: set_zip_leftD set_zip_rightD)
    then show "length z = n" using assms(2,3) by (simp add: z)
  qed
qed

lemma stored_signal_shape:
  assumes "calculate_trading_PnL offsets self br asset_a_df signal_df = (self', br', None)"
    and "wf_frame asset_a_df" and "wf_frame signal_df"
    and "self_signal self' = Some position"
  shows "length (cells position) = length (columns asset_a_df)"
    and "\<forall>c\<in>set (cells position). length c = length (index asset_a_df)"
    and "length (columns position) = length (columns asset_a_df)"
proof -
  from assms(1) obtain asset_df sig0 br1 sig lev where
    al: "align_frames asset_a_df signal_df = Inr (asset_df, sig0)"
    and svs: "signal_vol_stage offsets br (calculate_returns asset_df) sig0 = (br1, Inr (sig, lev))"
    and s: "self_signal self' = Some sig"
    by (rule PnL_success)
  from s assms(4) have [simp]: "sig = position" by simp
  note sh = aligned_signal_shape [OF al assms(2,3)]
  have asset_df: "asset_df = ffill asset_a_df" using al by (rule align_frames_Inr)
  let ?ret = "calculate_returns asset_df"
  have ret: "length (cells ?ret) = length (columns asset_a_df)" "index ?ret = index asset_a_df"
    using wf_frame_cells(1) [OF assms(2)] by (simp_all add: asset_df)
  have "length (cells position) = length (columns asset_a_df) \<and>
        (\<forall>c\<in>set (cells position). length c = length (index asset_a_df)) \<and>
        length (columns position) = length (columns asset_a_df)"
  proof (cases "hasattr br ''signal_vol_adjust'' \<and> is_True br ''signal_vol_adjust''")
    case False
    then have "position = sig0" using svs by (auto simp: signal_vol_stage_def)
    then show ?thesis using sh by simp
  next
    case True
    then obtain l where lev: "leverage_for offsets (resample_defaults br ''signal'') ''signal'' ?ret
                              = Inr (Some l)"
      and mul: "mul_values sig0 l = Inr position"
      using svs by (auto simp: signal_vol_stage_def Let_def and_then_Inr split: option.splits)
    from lev obtain vt ml vp obs freq rfreq rtype where
      "calculate_leverage_factor offsets ?ret vt ml vp obs freq rfreq rtype True 0 = Inr (Some l)"
      by (auto simp: leverage_for_def and_then_Inr)
    from leverage_shape [OF this] ret
    have l: "length (cells l) = length (columns asset_a_df)"
      "\<forall>c\<in>set (cells l). length c = length (index asset_a_df)"
      by simp_all
    from mul have "columns position = columns sig0"
      by (auto simp: mul_values_def split: if_splits)
    then show ?thesis
      using mul_values_shape [OF mul sh(2) l(2) sh(1) l(1)] sh(4) by simp
  qed
  then show "length (cells position) = length (columns asset_a_df)"
    and "\<forall>c\<in>set (cells position). length c = length (index asset_a_df)"
    and "length (columns position) = length (columns asset_a_df)"
    by simp_all
qed

lemma stored_pnl_shape:
  assumes "calculate_trading_PnL offsets self br asset_a_df signal_df = (self', br', None)"
    and "wf_frame asset_a_df" and "wf_frame signal_df"
    and "self_pnl self' = Some pnl"
  shows "length (row pnl t) = length (columns asset_a_df)"
proof -
  from assms(1) obtain asset_df sig0 tc sig pnl0 where
    al: "align_frames asset_a_df signal_df = Inr (asset_df, sig0)"
    and m: "calculate_signal_returns_with_tc_matrix (Some sig) (calculate_returns asset_df) tc
            = Inr pnl0"
    and p: "self_pnl self' = Some (pnl0\<lparr>columns := map2 (\<lambda>r s. r @ '' / '' @ s)
                                     (columns (calculate_returns asset_df)) (columns sig0)\<rparr>)"
    and s: "self_signal self' = Some sig"
    by (rule PnL_success)
  have asset_df: "asset_df = ffill asset_a_df" using al by (rule align_frames_Inr)
  have "length (cells sig) = length (columns asset_a_df)"
    using stored_signal_shape(1) [OF assms(1,2,3) s] .
  moreover have "length (cells (calculate_returns asset_df)) = length (columns asset_a_df)"
    using wf_frame_cells(1) [OF assms(2)] by (simp add: asset_df)
  moreover have "length (cells pnl0) = min (length (cells sig)) (length (cells (calculate_returns asset_df)))"
    using m by (auto simp: calculate_signal_returns_with_tc_matrix_def and_then_Inr
        split: if_splits)
  ultimately show ?thesis using p assms(4) by (auto simp: row_def)
qed

text \<open>
  C1: for well-formed frames and a call that ends normally, the P&L of asset \<open>i\<close> at a
  date \<open>t\<close> after the first is the position of the date before (the stored signal,
  leverage included) times the return at \<open>t\<close>, minus the cost rate times the absolute
  change of the position; the return is the simple return of the forward-filled
  price; the P&L of the first date is NaN.
\<close>

theorem per_asset_pnl:
  assumes "calculate_trading_PnL offsets self br asset_a_df signal_df = (self', br', None)"
    and "wf_frame asset_a_df" and "wf_frame signal_df"
    and "self_pnl self' = Some pnl" and "self_signal self' = Some position"
    and "br ''spot_tc_bp'' = Some tc" and "as_num tc = Inr k"
    and "i < length (columns asset_a_df)" and "t < length (index asset_a_df)" and "0 < t"
  shows "cell pnl i t =
           fl_sub (fl_mul (cell position i (t - 1)) (cell (calculate_returns (ffill asset_a_df)) i t))
                  (fl_mul (Fin k) (fl_abs (fl_sub (cell position i t) (cell position i (t - 1))))) \<and>
         cell (calculate_returns (ffill asset_a_df)) i t =
           fl_sub (fl_div (cell (ffill asset_a_df) i t) (cell (ffill asset_a_df) i (t - 1))) (Fin 1) \<and>
         cell pnl i 0 = NaN"
proof -
  note sh = stored_signal_shape [OF assms(1,2,3,5)]
  have i: "i < length (cells position)" using sh(1) assms(8) by simp
  then have t: "t < length (cells position ! i)" using sh(2) assms(9) by simp
  have ia: "i < length (cells asset_a_df)"
    using wf_frame_cells(1) [OF assms(2)] assms(8) by simp
  then have ta: "t < length (cells asset_a_df ! i)"
    using wf_frame_cells(2) [OF assms(2)] assms(9) by simp
  show ?thesis
    by (rule pnl_cell_formula [OF assms(1,4,5,6,7) i t ia ta assms(10)])
qed

theorem per_asset_pnl_witness:
  "calculate_trading_PnL example_calendar init plain_request two_prices two_signals
     = (two_result, plain_request, None) \<and>
   wf_frame two_prices \<and> wf_frame two_signals \<and>
   self_pnl two_result = Some two_pnl \<and> self_signal two_result = Some two_positions \<and>
   plain_request ''spot_tc_bp'' = Some (VNum (1 / 100)) \<and>
   as_num (VNum (1 / 100)) = Inr (1 / 100) \<and>
   cell two_pnl 0 2 =
     fl_sub (fl_mul (cell two_positions 0 1) (cell (calculate_returns (ffill two_prices)) 0 2))
            (fl_mul (Fin (1 / 100)) (fl_abs (fl_sub (cell two_positions 0 2) (cell two_positions 0 1)))) \<and>
   cell two_pnl 0 2 = Fin (- 11 / 100) \<and>
   cell two_pnl 0 0 = NaN"
proof -
  have w: "wf_frame two_prices" "wf_frame two_signals"
    by (simp_all add: wf_frame_def two_prices_def two_signals_def)
  have a: "self_pnl two_result = Some two_pnl" and b: "self_signal two_result = Some two_positions"
    by (simp_all add: two_result_def)
  have c: "plain_request ''spot_tc_bp'' = Some (VNum (1 / 100))"
    by (simp add: plain_request_def)
  have d: "as_num (VNum (1 / 100)) = Inr (1 / 100)" by simp
  have e: "0 < length (columns two_prices)" "2 < length (index two_prices)"
    by (simp_all add: two_prices_def)
  have g: "cell two_pnl 0 2 = Fin (- 11 / 100)" by (simp add: cell_def two_pnl_def)
  show ?thesis
    using per_asset_pnl [OF two_run [of example_calendar] w a b c d e] two_run w a b c d g
    by simp
qed

text \<open>
  C6, as the code has it. For well-formed frames, the combination \<^verbatim>\<open>'mean'\<close> (by name
  or by default) and a call that ends normally, the final signal of asset \<open>i\<close> at date
  \<open>t\<close> is the portfolio leverage at \<open>t\<close> times the stored signal, divided by the number
  of assets. When no portfolio volatility target is switched on, the portfolio P&L at
  \<open>t\<close> is the pandas mean of the row: the mean of the per-asset values that are not
  NaN, which is their sum divided by the number of assets when none of them is NaN.
\<close>

theorem mean_combination:
  assumes "calculate_trading_PnL offsets self br asset_a_df signal_df = (self', br', None)"
    and "br ''portfolio_combination'' = None \<or> br ''portfolio_combination'' = Some (VStr ''mean'')"
    and "wf_frame asset_a_df" and "wf_frame signal_df"
    and "self_pnl self' = Some pnl" and "self_portfolio self' = Some portfolio"
    and "self_signal self' = Some position" and "self_portfolio_leverage self' = Some leverage"
    and "self_portfolio_signal self' = Some final"
    and "i < length (columns asset_a_df)" and "t < length (index asset_a_df)"
  shows "cell final i t = fl_div (fl_mul (cell leverage 0 t) (cell position i t))
                             (Fin (real (length (columns asset_a_df)))) \<and>
         (\<not> is_True br ''portfolio_vol_adjust'' \<longrightarrow>
            cell portfolio 0 t = agg_mean (row pnl t) \<and>
            ((\<forall>v\<in>set (row pnl t). \<not> isnan v) \<longrightarrow>
               cell portfolio 0 t = fl_div (foldr fl_add (row pnl t) (Fin 0))
                                      (Fin (real (length (columns asset_a_df))))))"
proof -
  note sh = stored_signal_shape [OF assms(1,3,4,7)]
  have i: "i < length (cells position)" using sh(1) assms(10) by simp
  then have t: "t < length (cells position ! i)" using sh(2) assms(11) by simp
  have n: "length (row pnl t) = length (columns asset_a_df)"
    using stored_pnl_shape [OF assms(1,3,4,5)] .
  show ?thesis
    using mean_combination_cells [OF assms(1,2,5,6,7,8,9,11) i t] unfolding sh(3) n .
qed

theorem mean_combination_witness:
  "calculate_trading_PnL example_calendar init mean_request two_prices two_signals
     = (two_result, mean_request, None) \<and>
   mean_request ''portfolio_combination'' = Some (VStr ''mean'') \<and>
   wf_frame two_prices \<and> wf_frame two_signals \<and>
   \<not> is_True mean_request ''portfolio_vol_adjust'' \<and>
   row two_pnl 2 = [Fin (- 11 / 100), Fin 0] \<and>
   cell two_final_signal 0 2
     = fl_div (fl_mul (cell (ones two_pnl) 0 2) (cell two_positions 0 2)) (Fin 2) \<and>
   cell (two_portfolio\<lparr>columns := [''Port'']\<rparr>) 0 2
     = fl_div (foldr fl_add (row two_pnl 2) (Fin 0)) (Fin 2) \<and>
   cell (two_portfolio\<lparr>columns := [''Port'']\<rparr>) 0 2 = Fin (- 11 / 200)"
proof -
  have a: "mean_request ''portfolio_combination'' = None \<or>
           mean_request ''portfolio_combination'' = Some (VStr ''mean'')"
    by (simp add: mean_request_def)
  have w: "wf_frame two_prices" "wf_frame two_signals"
    by (simp_all add: wf_frame_def two_prices_def two_signals_def)
  have b: "self_pnl two_result = Some two_pnl"
    "self_portfolio two_result = Some (two_portfolio\<lparr>columns := [''Port'']\<rparr>)"
    "self_signal two_result = Some two_positions"
    "self_portfolio_leverage two_result = Some (ones two_pnl)"
    "self_portfolio_signal two_result = Some two_final_signal"
    by (simp_all add: two_result_def)
  have c: "0 < length (columns two_prices)" "2 < length (index two_prices)"
    by (simp_all add: two_prices_def)
  have d: "\<not> is_True mean_request ''portfolio_vol_adjust''"
    by (simp add: is_True_def mean_request_def plain_request_def)
  have e: "row two_pnl 2 = [Fin (- 11 / 100), Fin 0]"
    by (simp add: row_def two_pnl_def)
  have f: "length (columns two_prices) = 2" by (simp add: two_prices_def)
  have g: "cell (two_portfolio\<lparr>columns := [''Port'']\<rparr>) 0 2 = Fin (- 11 / 200)"
    by (simp add: cell_def two_portfolio_def)
  show ?thesis
    using mean_combination [of example_calendar init mean_request,
        OF mean_run [of example_calendar] a w b c] mean_run w a d e f g
    by (simp add: mean_request_def)
qed

end
